theory Spec2Isabelle
  imports Main
begin

section \<open>JavaScript values\<close>

text \<open>
  The Lambda event, the client context, the tool parameters and every response are
  JavaScript values built from JSON. Objects are association lists in key order (a
  parsed object has each key once; lookups take the first entry). Numbers are the
  integers. \<open>JFun k\<close> is the member \<open>k\<close> that every object literal inherits from
  \<open>Object.prototype\<close>: it is what a table lookup by a data-supplied key can return
  besides the table's own entries. Strings are character lists.
\<close>

datatype json =
    JUndef
  | JNull
  | JBool bool
  | JNum int
  | JStr string
  | JArr "json list"
  | JObj "(string \<times> json) list"
  | JFun string

text \<open>What can be thrown. \<open>Error m\<close> is \<open>new Error(m)\<close> of this code;
  \<open>TypeError\<close> is raised by the engine (a property of \<open>undefined\<close> or \<open>null\<close>,
  a call of something that is no function); \<open>ZodError\<close> is thrown by a schema's
  \<open>parse\<close>; \<open>Thrown v\<close> is a thrown value that is no instance of \<open>Error\<close>.\<close>

datatype exn = Error string | TypeError | ZodError | Thrown json

definition bind :: "exn + 'a \<Rightarrow> ('a \<Rightarrow> exn + 'b) \<Rightarrow> exn + 'b" where
  "bind m f = (case m of Inl e \<Rightarrow> Inl e | Inr x \<Rightarrow> f x)"

fun truthy :: "json \<Rightarrow> bool" where
  "truthy JUndef = False"
| "truthy JNull = False"
| "truthy (JBool b) = b"
| "truthy (JNum n) = (n \<noteq> 0)"
| "truthy (JStr s) = (s \<noteq> [])"
| "truthy (JArr xs) = True"
| "truthy (JObj kvs) = True"
| "truthy (JFun k) = True"

fun nullish :: "json \<Rightarrow> bool" where
  "nullish JUndef = True"
| "nullish JNull = True"
| "nullish v = False"

text \<open>\<open>v.k\<close> for a value that is neither \<open>undefined\<close> nor \<open>null\<close>, and a key
  among those this code reads by name (none of them is a member of a prototype):
  an object's own entry, otherwise \<open>undefined\<close>.\<close>

fun js_get :: "json \<Rightarrow> string \<Rightarrow> json" where
  "js_get (JObj kvs) k = (case map_of kvs k of Some v \<Rightarrow> v | None \<Rightarrow> JUndef)"
| "js_get v k = JUndef"

text \<open>\<open>v.k\<close> in general: a TypeError on \<open>undefined\<close> and \<open>null\<close>.\<close>

definition js_prop :: "json \<Rightarrow> string \<Rightarrow> exn + json" where
  "js_prop v k = (if nullish v then Inl TypeError else Inr (js_get v k))"

text \<open>\<open>v?.k\<close>.\<close>

definition js_opt :: "json \<Rightarrow> string \<Rightarrow> json" where
  "js_opt v k = (if nullish v then JUndef else js_get v k)"

text \<open>\<open>a || b\<close> on values.\<close>

definition js_or :: "json \<Rightarrow> json \<Rightarrow> json" where
  "js_or a b = (if truthy a then a else b)"

section \<open>String operations\<close>

fun starts_with :: "string \<Rightarrow> string \<Rightarrow> bool" where
  "starts_with [] s = True"
| "starts_with (p # ps) [] = False"
| "starts_with (p # ps) (c # cs) = (p = c \<and> starts_with ps cs)"

text \<open>\<open>s.indexOf(p)\<close>, with \<open>None\<close> for -1.\<close>

fun index_of :: "string \<Rightarrow> string \<Rightarrow> nat option" where
  "index_of p [] = (if p = [] then Some 0 else None)"
| "index_of p (c # cs) =
     (if starts_with p (c # cs) then Some 0 else map_option Suc (index_of p cs))"

definition str_includes :: "string \<Rightarrow> string \<Rightarrow> bool" where
  "str_includes p s = (index_of p s \<noteq> None)"

text \<open>\<open>s.replace(p, r)\<close> with a string pattern: the first occurrence only.\<close>

definition replace :: "string \<Rightarrow> string \<Rightarrow> string \<Rightarrow> string" where
  "replace p r s =
     (case index_of p s of
        None \<Rightarrow> s
      | Some i \<Rightarrow> take i s @ r @ drop (i + length p) s)"

lemma index_of_bound: "index_of p s = Some i \<Longrightarrow> i + length p \<le> length s \<and> starts_with p (drop i s)"
proof (induction s arbitrary: i)
  case Nil
  then show ?case by (auto split: if_splits)
next
  case (Cons c cs)
  show ?case
  proof (cases "starts_with p (c # cs)")
    case True
    have len: "starts_with q t \<Longrightarrow> length q \<le> length t" for q t :: string
      by (induction q t rule: starts_with.induct) auto
    from True Cons.prems have "i = 0" by simp
    with True len [OF True] show ?thesis by simp
  next
    case False
    with Cons.prems obtain j where j: "index_of p cs = Some j" "i = Suc j"
      by auto
    from Cons.IH [OF j(1)] j(2) show ?thesis by simp
  qed
qed

text \<open>\<open>s.split(d)\<close>: the separators are found left to right, each search starting
  after the previous separator; an empty separator splits into characters.\<close>

function js_split :: "string \<Rightarrow> string \<Rightarrow> string list" where
  "js_split d s =
     (if d = [] then map (\<lambda>c. [c]) s
      else case index_of d s of
             None \<Rightarrow> [s]
           | Some i \<Rightarrow> take i s # js_split d (drop (i + length d) s))"
  by pat_completeness auto
termination
proof (relation "measure (\<lambda>(d, s). length s)")
  show "wf (measure (\<lambda>(d, s). length s))" by simp
next
  fix d s :: string and i :: nat
  assume d: "d \<noteq> []" and i: "index_of d s = Some i"
  from index_of_bound [OF i] have "i + length d \<le> length s" by simp
  moreover from d have "0 < length d" by simp
  ultimately have "length s - (i + length d) < length s"
    by arith
  then show "((d, drop (i + length d) s), (d, s)) \<in> measure (\<lambda>(d, s). length s)"
    by simp
qed

declare js_split.simps [simp del]

text \<open>Decimal digits of a natural number, for \<open>String(n)\<close>.\<close>

function show_nat :: "nat \<Rightarrow> string" where
  "show_nat n =
     (if n < 10 then [''0123456789'' ! n]
      else show_nat (n div 10) @ [''0123456789'' ! (n mod 10)])"
  by pat_completeness auto
termination
  by (relation "measure (\<lambda>n. n)") auto

declare show_nat.simps [simp del]

fun join_with :: "string \<Rightarrow> string list \<Rightarrow> string" where
  "join_with sep [] = []"
| "join_with sep [x] = x"
| "join_with sep (x # y # ys) = x @ sep @ join_with sep (y # ys)"

text \<open>The text of an inherited member: a native function prints as its source
  placeholder (the constructor is \<open>Object\<close>), \<open>__proto__\<close> is the prototype object
  itself.\<close>

definition inherited_text :: "string \<Rightarrow> string" where
  "inherited_text k =
     (if k = ''__proto__'' then ''[object Object]''
      else ''function '' @ (if k = ''constructor'' then ''Object'' else k) @ ''() { [native code] }'')"

text \<open>\<open>String(v)\<close>, as a template literal and a property key apply it. An array
  joins its elements with commas, \<open>undefined\<close> and \<open>null\<close> elements as empty.\<close>

fun js_to_string :: "json \<Rightarrow> string" where
  "js_to_string JUndef = ''undefined''"
| "js_to_string JNull = ''null''"
| "js_to_string (JBool b) = (if b then ''true'' else ''false'')"
| "js_to_string (JNum n) = (if n < 0 then ''-'' @ show_nat (nat (- n)) else show_nat (nat n))"
| "js_to_string (JStr s) = s"
| "js_to_string (JArr xs) =
     join_with '','' (map (\<lambda>x. if nullish x then [] else js_to_string x) xs)"
| "js_to_string (JObj kvs) = ''[object Object]''"
| "js_to_string (JFun k) = inherited_text k"

text \<open>\<open>Object.keys(v)\<close> for a value that is not \<open>undefined\<close> or \<open>null\<close>: the own
  keys of an object, the indices of an array or a string, nothing for a number or a
  boolean.\<close>

fun object_keys :: "json \<Rightarrow> string list" where
  "object_keys (JObj kvs) = map fst kvs"
| "object_keys (JArr xs) = map show_nat [0 ..< length xs]"
| "object_keys (JStr s) = map show_nat [0 ..< length s]"
| "object_keys v = []"

fun js_typeof :: "json \<Rightarrow> string" where
  "js_typeof JUndef = ''undefined''"
| "js_typeof (JBool b) = ''boolean''"
| "js_typeof (JNum n) = ''number''"
| "js_typeof (JStr s) = ''string''"
| "js_typeof (JFun k) = (if k = ''__proto__'' then ''object'' else ''function'')"
| "js_typeof v = ''object''"

section \<open>Message literals\<close>

text \<open>The source's message literals are Japanese; they are kept as their UTF-8 bytes,
  each with an English gloss.\<close>

text \<open>The KINTONE_BASE_URL environment variable is not set.\<close>

definition msg_no_base_url :: string where
  "msg_no_base_url =
     ''KINTONE_BASE_URL'' @ [CHR 0xE7, CHR 0x92, CHR 0xB0, CHR 0xE5, CHR 0xA2, CHR 0x83,
     CHR 0xE5, CHR 0xA4, CHR 0x89, CHR 0xE6, CHR 0x95, CHR 0xB0, CHR 0xE3, CHR 0x81, CHR 0x8C,
     CHR 0xE8, CHR 0xA8, CHR 0xAD, CHR 0xE5, CHR 0xAE, CHR 0x9A, CHR 0xE3, CHR 0x81, CHR 0x95,
     CHR 0xE3, CHR 0x82, CHR 0x8C, CHR 0xE3, CHR 0x81, CHR 0xA6, CHR 0xE3, CHR 0x81, CHR 0x84,
     CHR 0xE3, CHR 0x81, CHR 0xBE, CHR 0xE3, CHR 0x81, CHR 0x9B, CHR 0xE3, CHR 0x82, CHR 0x93]"

text \<open>No credentials are set (KINTONE_USERNAME/KINTONE_PASSWORD are needed).\<close>

definition msg_no_credentials :: string where
  "msg_no_credentials =
     [CHR 0xE8, CHR 0xAA, CHR 0x8D, CHR 0xE8, CHR 0xA8, CHR 0xBC, CHR 0xE6, CHR 0x83,
     CHR 0x85, CHR 0xE5, CHR 0xA0, CHR 0xB1, CHR 0xE3, CHR 0x81, CHR 0x8C, CHR 0xE8, CHR 0xA8,
     CHR 0xAD, CHR 0xE5, CHR 0xAE, CHR 0x9A, CHR 0xE3, CHR 0x81, CHR 0x95, CHR 0xE3, CHR 0x82,
     CHR 0x8C, CHR 0xE3, CHR 0x81, CHR 0xA6, CHR 0xE3, CHR 0x81, CHR 0x84, CHR 0xE3, CHR 0x81,
     CHR 0xBE, CHR 0xE3, CHR 0x81, CHR 0x9B, CHR 0xE3, CHR 0x82, CHR 0x93, CHR 0xEF, CHR 0xBC,
     CHR 0x88] @ ''KINTONE_USERNAME/KINTONE_PASSWORD '' @ [CHR 0xE3, CHR 0x81, CHR 0x8C,
     CHR 0xE5, CHR 0xBF, CHR 0x85, CHR 0xE8, CHR 0xA6, CHR 0x81, CHR 0xE3, CHR 0x81, CHR 0xA7,
     CHR 0xE3, CHR 0x81, CHR 0x99, CHR 0xEF, CHR 0xBC, CHR 0x89]"

text \<open>User name and password are not set.\<close>

definition msg_no_user_password :: string where
  "msg_no_user_password =
     [CHR 0xE3, CHR 0x83, CHR 0xA6, CHR 0xE3, CHR 0x83, CHR 0xBC, CHR 0xE3, CHR 0x82,
     CHR 0xB6, CHR 0xE3, CHR 0x83, CHR 0xBC, CHR 0xE5, CHR 0x90, CHR 0x8D, CHR 0xE3, CHR 0x83,
     CHR 0xBB, CHR 0xE3, CHR 0x83, CHR 0x91, CHR 0xE3, CHR 0x82, CHR 0xB9, CHR 0xE3, CHR 0x83,
     CHR 0xAF, CHR 0xE3, CHR 0x83, CHR 0xBC, CHR 0xE3, CHR 0x83, CHR 0x89, CHR 0xE3, CHR 0x81,
     CHR 0x8C, CHR 0xE8, CHR 0xA8, CHR 0xAD, CHR 0xE5, CHR 0xAE, CHR 0x9A, CHR 0xE3, CHR 0x81,
     CHR 0x95, CHR 0xE3, CHR 0x82, CHR 0x8C, CHR 0xE3, CHR 0x81, CHR 0xA6, CHR 0xE3, CHR 0x81,
     CHR 0x84, CHR 0xE3, CHR 0x81, CHR 0xBE, CHR 0xE3, CHR 0x81, CHR 0x9B, CHR 0xE3, CHR 0x82,
     CHR 0x93]"

text \<open>Getting the records failed.\<close>

definition msg_getRecords_failed :: string where
  "msg_getRecords_failed =
     [CHR 0xE3, CHR 0x83, CHR 0xAC, CHR 0xE3, CHR 0x82, CHR 0xB3, CHR 0xE3, CHR 0x83,
     CHR 0xBC, CHR 0xE3, CHR 0x83, CHR 0x89, CHR 0xE5, CHR 0x8F, CHR 0x96, CHR 0xE5, CHR 0xBE,
     CHR 0x97, CHR 0xE3, CHR 0x81, CHR 0xAB, CHR 0xE5, CHR 0xA4, CHR 0xB1, CHR 0xE6, CHR 0x95,
     CHR 0x97, CHR 0xE3, CHR 0x81, CHR 0x97, CHR 0xE3, CHR 0x81, CHR 0xBE, CHR 0xE3, CHR 0x81,
     CHR 0x97, CHR 0xE3, CHR 0x81, CHR 0x9F]"

text \<open>Getting the app failed.\<close>

definition msg_getApp_failed :: string where
  "msg_getApp_failed =
     [CHR 0xE3, CHR 0x82, CHR 0xA2, CHR 0xE3, CHR 0x83, CHR 0x97, CHR 0xE3, CHR 0x83,
     CHR 0xAA, CHR 0xE6, CHR 0x83, CHR 0x85, CHR 0xE5, CHR 0xA0, CHR 0xB1, CHR 0xE5, CHR 0x8F,
     CHR 0x96, CHR 0xE5, CHR 0xBE, CHR 0x97, CHR 0xE3, CHR 0x81, CHR 0xAB, CHR 0xE5, CHR 0xA4,
     CHR 0xB1, CHR 0xE6, CHR 0x95, CHR 0x97, CHR 0xE3, CHR 0x81, CHR 0x97, CHR 0xE3, CHR 0x81,
     CHR 0xBE, CHR 0xE3, CHR 0x81, CHR 0x97, CHR 0xE3, CHR 0x81, CHR 0x9F]"

text \<open>Adding the records failed.\<close>

definition msg_addRecords_failed :: string where
  "msg_addRecords_failed =
     [CHR 0xE3, CHR 0x83, CHR 0xAC, CHR 0xE3, CHR 0x82, CHR 0xB3, CHR 0xE3, CHR 0x83,
     CHR 0xBC, CHR 0xE3, CHR 0x83, CHR 0x89, CHR 0xE8, CHR 0xBF, CHR 0xBD, CHR 0xE5, CHR 0x8A,
     CHR 0xA0, CHR 0xE3, CHR 0x81, CHR 0xAB, CHR 0xE5, CHR 0xA4, CHR 0xB1, CHR 0xE6, CHR 0x95,
     CHR 0x97, CHR 0xE3, CHR 0x81, CHR 0x97, CHR 0xE3, CHR 0x81, CHR 0xBE, CHR 0xE3, CHR 0x81,
     CHR 0x97, CHR 0xE3, CHR 0x81, CHR 0x9F]"

text \<open>Getting the list of apps failed.\<close>

definition msg_getApps_failed :: string where
  "msg_getApps_failed =
     [CHR 0xE3, CHR 0x82, CHR 0xA2, CHR 0xE3, CHR 0x83, CHR 0x97, CHR 0xE3, CHR 0x83,
     CHR 0xAA, CHR 0xE4, CHR 0xB8, CHR 0x80, CHR 0xE8, CHR 0xA6, CHR 0xA7, CHR 0xE5, CHR 0x8F,
     CHR 0x96, CHR 0xE5, CHR 0xBE, CHR 0x97, CHR 0xE3, CHR 0x81, CHR 0xAB, CHR 0xE5, CHR 0xA4,
     CHR 0xB1, CHR 0xE6, CHR 0x95, CHR 0x97, CHR 0xE3, CHR 0x81, CHR 0x97, CHR 0xE3, CHR 0x81,
     CHR 0xBE, CHR 0xE3, CHR 0x81, CHR 0x97, CHR 0xE3, CHR 0x81, CHR 0x9F]"

text \<open>Getting the form fields failed.\<close>

definition msg_getFormFields_failed :: string where
  "msg_getFormFields_failed =
     [CHR 0xE3, CHR 0x83, CHR 0x95, CHR 0xE3, CHR 0x82, CHR 0xA9, CHR 0xE3, CHR 0x83,
     CHR 0xBC, CHR 0xE3, CHR 0x83, CHR 0xA0, CHR 0xE3, CHR 0x83, CHR 0x95, CHR 0xE3, CHR 0x82,
     CHR 0xA3, CHR 0xE3, CHR 0x83, CHR 0xBC, CHR 0xE3, CHR 0x83, CHR 0xAB, CHR 0xE3, CHR 0x83,
     CHR 0x89, CHR 0xE5, CHR 0x8F, CHR 0x96, CHR 0xE5, CHR 0xBE, CHR 0x97, CHR 0xE3, CHR 0x81,
     CHR 0xAB, CHR 0xE5, CHR 0xA4, CHR 0xB1, CHR 0xE6, CHR 0x95, CHR 0x97, CHR 0xE3, CHR 0x81,
     CHR 0x97, CHR 0xE3, CHR 0x81, CHR 0xBE, CHR 0xE3, CHR 0x81, CHR 0x97, CHR 0xE3, CHR 0x81,
     CHR 0x9F]"

text \<open>The JSON of the SQS/SNS body is invalid.\<close>

definition msg_sqs_body_invalid :: string where
  "msg_sqs_body_invalid =
     ''SQS/SNS'' @ [CHR 0xE3, CHR 0x83, CHR 0x9C, CHR 0xE3, CHR 0x83, CHR 0x87, CHR 0xE3,
     CHR 0x82, CHR 0xA3, CHR 0xE3, CHR 0x81, CHR 0xAE] @ ''JSON'' @ [CHR 0xE3, CHR 0x81,
     CHR 0x8C, CHR 0xE7, CHR 0x84, CHR 0xA1, CHR 0xE5, CHR 0x8A, CHR 0xB9, CHR 0xE3, CHR 0x81,
     CHR 0xA7, CHR 0xE3, CHR 0x81, CHR 0x99]"

text \<open>The JSON of the request body is invalid.\<close>

definition msg_body_invalid :: string where
  "msg_body_invalid =
     [CHR 0xE3, CHR 0x83, CHR 0xAA, CHR 0xE3, CHR 0x82, CHR 0xAF, CHR 0xE3, CHR 0x82,
     CHR 0xA8, CHR 0xE3, CHR 0x82, CHR 0xB9, CHR 0xE3, CHR 0x83, CHR 0x88, CHR 0xE3, CHR 0x83,
     CHR 0x9C, CHR 0xE3, CHR 0x83, CHR 0x87, CHR 0xE3, CHR 0x82, CHR 0xA3, CHR 0xE3, CHR 0x81,
     CHR 0xAE] @ ''JSON'' @ [CHR 0xE3, CHR 0x81, CHR 0x8C, CHR 0xE7, CHR 0x84, CHR 0xA1,
     CHR 0xE5, CHR 0x8A, CHR 0xB9, CHR 0xE3, CHR 0x81, CHR 0xA7, CHR 0xE3, CHR 0x81, CHR 0x99]"

text \<open>No tool name is given.\<close>

definition msg_tool_not_specified :: string where
  "msg_tool_not_specified =
     [CHR 0xE3, CHR 0x83, CHR 0x84, CHR 0xE3, CHR 0x83, CHR 0xBC, CHR 0xE3, CHR 0x83,
     CHR 0xAB, CHR 0xE5, CHR 0x90, CHR 0x8D, CHR 0xE3, CHR 0x81, CHR 0x8C, CHR 0xE6, CHR 0x8C,
     CHR 0x87, CHR 0xE5, CHR 0xAE, CHR 0x9A, CHR 0xE3, CHR 0x81, CHR 0x95, CHR 0xE3, CHR 0x82,
     CHR 0x8C, CHR 0xE3, CHR 0x81, CHR 0xA6, CHR 0xE3, CHR 0x81, CHR 0x84, CHR 0xE3, CHR 0x81,
     CHR 0xBE, CHR 0xE3, CHR 0x81, CHR 0x9B, CHR 0xE3, CHR 0x82, CHR 0x93]"

text \<open>Unsupported tool: (the prefix of the message).\<close>

definition msg_unsupported_tool :: string where
  "msg_unsupported_tool =
     [CHR 0xE6, CHR 0x9C, CHR 0xAA, CHR 0xE5, CHR 0xAF, CHR 0xBE, CHR 0xE5, CHR 0xBF,
     CHR 0x9C, CHR 0xE3, CHR 0x81, CHR 0xAE, CHR 0xE3, CHR 0x83, CHR 0x84, CHR 0xE3, CHR 0x83,
     CHR 0xBC, CHR 0xE3, CHR 0x83, CHR 0xAB] @ '': ''"

text \<open>Internal server error.\<close>

definition msg_internal_server_error :: string where
  "msg_internal_server_error =
     [CHR 0xE5, CHR 0x86, CHR 0x85, CHR 0xE9, CHR 0x83, CHR 0xA8, CHR 0xE3, CHR 0x82,
     CHR 0xB5, CHR 0xE3, CHR 0x83, CHR 0xBC, CHR 0xE3, CHR 0x83, CHR 0x90, CHR 0xE3, CHR 0x83,
     CHR 0xBC, CHR 0xE3, CHR 0x82, CHR 0xA8, CHR 0xE3, CHR 0x83, CHR 0xA9, CHR 0xE3, CHR 0x83,
     CHR 0xBC]"

section \<open>Execution environment\<close>

text \<open>
  What the handlers take from outside the repository: the process environment
  variables, the constructor of the kintone REST client (what
  \<open>new KintoneRestAPIClient(clientConfig)\<close> throws for its argument, \<open>None\<close> when it
  constructs the client), the client's methods (a method name and its argument object
  give the response or what the call throws), \<open>JSON.parse\<close> (\<open>None\<close> for a
  SyntaxError) and \<open>JSON.stringify\<close> on objects, the clock's
  \<open>new Date().toISOString()\<close>, and the message text of the errors that the engine
  and the schema library raise.
\<close>

record env =
  process_env :: "string \<Rightarrow> string option"
  new_client :: "json \<Rightarrow> exn option"
  kintone :: "string \<Rightarrow> json \<Rightarrow> exn + json"
  json_parse :: "string \<Rightarrow> json option"
  json_stringify :: "json \<Rightarrow> string"
  clock :: string
  lib_message :: "exn \<Rightarrow> string"

text \<open>\<open>error instanceof Error ? error.message : d\<close>.\<close>

definition message_or :: "env \<Rightarrow> exn \<Rightarrow> string \<Rightarrow> string" where
  "message_or env e d =
     (case e of
        Error m \<Rightarrow> m
      | TypeError \<Rightarrow> lib_message env TypeError
      | ZodError \<Rightarrow> lib_message env ZodError
      | Thrown v \<Rightarrow> d)"

section \<open>Configuration\<close>

record KintoneConfig =
  baseUrl :: string
  username :: "string option"
  password :: "string option"
  basicAuth :: "(string \<times> string) option"

text \<open>A variable that is set and not empty.\<close>

definition env_set :: "env \<Rightarrow> string \<Rightarrow> bool" where
  "env_set env k = (case process_env env k of None \<Rightarrow> False | Some v \<Rightarrow> v \<noteq> [])"

definition env_val :: "env \<Rightarrow> string \<Rightarrow> string" where
  "env_val env k = (case process_env env k of None \<Rightarrow> [] | Some v \<Rightarrow> v)"

definition getKintoneConfig :: "env \<Rightarrow> exn + KintoneConfig" where
  "getKintoneConfig env =
     (if \<not> env_set env ''KINTONE_BASE_URL'' then Inl (Error msg_no_base_url)
      else if env_set env ''KINTONE_USERNAME'' \<and> env_set env ''KINTONE_PASSWORD''
      then Inr \<lparr> baseUrl = env_val env ''KINTONE_BASE_URL'',
                 username = Some (env_val env ''KINTONE_USERNAME''),
                 password = Some (env_val env ''KINTONE_PASSWORD''),
                 basicAuth =
                   (if env_set env ''KINTONE_BASIC_AUTH_USERNAME'' \<and>
                       env_set env ''KINTONE_BASIC_AUTH_PASSWORD''
                    then Some (env_val env ''KINTONE_BASIC_AUTH_USERNAME'',
                               env_val env ''KINTONE_BASIC_AUTH_PASSWORD'')
                    else None) \<rparr>
      else Inl (Error msg_no_credentials))"

definition opt_set :: "string option \<Rightarrow> bool" where
  "opt_set v = (case v of None \<Rightarrow> False | Some s \<Rightarrow> s \<noteq> [])"

definition opt_val :: "string option \<Rightarrow> string" where
  "opt_val v = (case v of None \<Rightarrow> [] | Some s \<Rightarrow> s)"

text \<open>The \<open>clientConfig\<close> object that \<open>createKintoneClient\<close> builds once user
  name and password are there: the base URL, the credentials, and the Basic
  authentication when it is configured.\<close>

definition client_config :: "KintoneConfig \<Rightarrow> json" where
  "client_config config =
     JObj ([(''baseUrl'', JStr (baseUrl config)),
            (''auth'', JObj [(''username'', JStr (opt_val (username config))),
                            (''password'', JStr (opt_val (password config)))])] @
           (case basicAuth config of
              None \<Rightarrow> []
            | Some up \<Rightarrow> [(''basicAuth'', JObj [(''username'', JStr (fst up)),
                                                  (''password'', JStr (snd up))])]))"

text \<open>\<open>createKintoneClient\<close>: the error of missing credentials, or whatever
  \<open>new KintoneRestAPIClient(clientConfig)\<close> throws (the library refuses, for one, a
  base URL that is not https); the constructed client is the environment's
  \<open>kintone\<close>.\<close>

definition createKintoneClient :: "env \<Rightarrow> KintoneConfig \<Rightarrow> exn + json" where
  "createKintoneClient env config =
     (if opt_set (username config) \<and> opt_set (password config)
      then (case new_client env (client_config config) of
              Some e \<Rightarrow> Inl e
            | None \<Rightarrow> Inr (client_config config))
      else Inl (Error msg_no_user_password))"

section \<open>Parameter schemas\<close>

datatype ztype = ZString | ZBoolean | ZAny | ZArray ztype | ZRecord ztype | ZOptional ztype

fun accepts :: "ztype \<Rightarrow> json \<Rightarrow> bool" where
  "accepts ZString v = (case v of JStr s \<Rightarrow> True | _ \<Rightarrow> False)"
| "accepts ZBoolean v = (case v of JBool b \<Rightarrow> True | _ \<Rightarrow> False)"
| "accepts ZAny v = True"
| "accepts (ZArray t) v = (case v of JArr xs \<Rightarrow> list_all (accepts t) xs | _ \<Rightarrow> False)"
| "accepts (ZRecord t) v =
     (case v of JObj kvs \<Rightarrow> list_all (\<lambda>kv. accepts t (snd kv)) kvs | _ \<Rightarrow> False)"
| "accepts (ZOptional t) v = (v = JUndef \<or> accepts t v)"

text \<open>\<open>z.object(shape).parse(v)\<close>: \<open>v\<close> must be an object whose fields the shape
  accepts; the result keeps the shape's keys that \<open>v\<close> has. Anything else throws.\<close>

definition zod_parse :: "(string \<times> ztype) list \<Rightarrow> json \<Rightarrow> exn + json" where
  "zod_parse shape v =
     (case v of
        JObj kvs \<Rightarrow>
          if list_all (\<lambda>kt. accepts (snd kt) (js_get v (fst kt))) shape
          then Inr (JObj (concat (map (\<lambda>kt. case map_of kvs (fst kt) of
                                                Some x \<Rightarrow> [(fst kt, x)]
                                              | None \<Rightarrow> []) shape)))
          else Inl ZodError
      | _ \<Rightarrow> Inl ZodError)"

definition getRecordsSchema :: "(string \<times> ztype) list" where
  "getRecordsSchema =
     [(''app'', ZString), (''query'', ZOptional ZString),
      (''fields'', ZOptional (ZArray ZString)), (''totalCount'', ZOptional ZBoolean)]"

definition getAppSchema :: "(string \<times> ztype) list" where
  "getAppSchema = [(''id'', ZString)]"

definition addRecordsSchema :: "(string \<times> ztype) list" where
  "addRecordsSchema = [(''app'', ZString), (''records'', ZArray (ZRecord ZAny))]"

section \<open>The tools\<close>

text \<open>Each tool calls the client inside \<open>try\<close>: whatever the call throws, and a
  TypeError of reading a field of a response that is \<open>undefined\<close> or \<open>null\<close>,
  becomes the failure object.\<close>

definition tool_failure :: "env \<Rightarrow> exn \<Rightarrow> string \<Rightarrow> json" where
  "tool_failure env e d =
     JObj [(''success'', JBool False), (''error'', JStr (message_or env e d))]"

definition getRecords :: "env \<Rightarrow> json \<Rightarrow> json" where
  "getRecords env params =
     (case kintone env ''record.getRecords''
             (JObj [(''app'', js_get params ''app''),
                    (''query'', js_get params ''query''),
                    (''fields'', js_get params ''fields''),
                    (''totalCount'',
                       (if nullish (js_get params ''totalCount'') then JBool True
                        else js_get params ''totalCount''))]) of
        Inl e \<Rightarrow> tool_failure env e msg_getRecords_failed
      | Inr response \<Rightarrow>
          if nullish response then tool_failure env TypeError msg_getRecords_failed
          else JObj [(''success'', JBool True),
                     (''data'', JObj [(''records'', js_get response ''records''),
                                      (''totalCount'', js_get response ''totalCount'')])])"

definition getApp :: "env \<Rightarrow> json \<Rightarrow> json" where
  "getApp env params =
     (case kintone env ''app.getApp'' (JObj [(''id'', js_get params ''id'')]) of
        Inl e \<Rightarrow> tool_failure env e msg_getApp_failed
      | Inr response \<Rightarrow> JObj [(''success'', JBool True), (''data'', response)])"

definition addRecords :: "env \<Rightarrow> json \<Rightarrow> json" where
  "addRecords env params =
     (case kintone env ''record.addRecords''
             (JObj [(''app'', js_get params ''app''),
                    (''records'', js_get params ''records'')]) of
        Inl e \<Rightarrow> tool_failure env e msg_addRecords_failed
      | Inr response \<Rightarrow>
          if nullish response then tool_failure env TypeError msg_addRecords_failed
          else JObj [(''success'', JBool True),
                     (''data'', JObj [(''ids'', js_get response ''ids''),
                                      (''revisions'', js_get response ''revisions'')])])"

definition getApps :: "env \<Rightarrow> json" where
  "getApps env =
     (case kintone env ''app.getApps'' (JObj []) of
        Inl e \<Rightarrow> tool_failure env e msg_getApps_failed
      | Inr response \<Rightarrow>
          if nullish response then tool_failure env TypeError msg_getApps_failed
          else JObj [(''success'', JBool True),
                     (''data'', JObj [(''apps'', js_get response ''apps'')])])"

definition getFormFields :: "env \<Rightarrow> json \<Rightarrow> json" where
  "getFormFields env params =
     (case kintone env ''app.getFormFields'' (JObj [(''app'', js_get params ''id'')]) of
        Inl e \<Rightarrow> tool_failure env e msg_getFormFields_failed
      | Inr response \<Rightarrow>
          if nullish response then tool_failure env TypeError msg_getFormFields_failed
          else JObj [(''success'', JBool True),
                     (''data'', JObj [(''properties'', js_get response ''properties'')])])"

text \<open>The \<open>switch\<close> on the tool name, shared by both entry points: the schema's
  \<open>parse\<close> may throw; \<open>None\<close> is the \<open>default\<close> branch.\<close>

definition run_tool :: "env \<Rightarrow> json \<Rightarrow> json \<Rightarrow> exn + json option" where
  "run_tool env tool params =
     (if tool = JStr ''get-records''
      then bind (zod_parse getRecordsSchema params) (\<lambda>p. Inr (Some (getRecords env p)))
      else if tool = JStr ''get-app''
      then bind (zod_parse getAppSchema params) (\<lambda>p. Inr (Some (getApp env p)))
      else if tool = JStr ''add-records''
      then bind (zod_parse addRecordsSchema params) (\<lambda>p. Inr (Some (addRecords env p)))
      else if tool = JStr ''get-apps''
      then Inr (Some (getApps env))
      else if tool = JStr ''get-form-fields''
      then bind (zod_parse getAppSchema params) (\<lambda>p. Inr (Some (getFormFields env p)))
      else Inr None)"

section \<open>The multi-envelope entry point\<close>

text \<open>The handler of \<open>MyKintone/src/index.ts\<close>. The invocation context is read only
  through its \<open>clientContext\<close>.\<close>

record lambda_context =
  clientContext :: json

definition delimiter :: string where
  "delimiter = ''___''"

definition family_prefix :: string where
  "family_prefix = ''kintone-''"

definition target_prefix :: string where
  "target_prefix = ''MyKintoneTarget___''"

text \<open>\<open>v.startsWith(p)\<close>: a TypeError unless \<open>v\<close> is a string.\<close>

definition call_startsWith :: "json \<Rightarrow> string \<Rightarrow> exn + bool" where
  "call_startsWith v p = (case v of JStr s \<Rightarrow> Inr (starts_with p s) | _ \<Rightarrow> Inl TypeError)"

text \<open>\<open>v && v.startsWith(p)\<close>, as a condition.\<close>

definition and_startsWith :: "json \<Rightarrow> string \<Rightarrow> exn + bool" where
  "and_startsWith v p = (if truthy v then call_startsWith v p else Inr False)"

text \<open>\<open>(context.clientContext as any)?.custom\<close> and the tool name it carries;
  the responses also look under \<open>Custom\<close>.\<close>

definition customContext :: "lambda_context \<Rightarrow> json" where
  "customContext ctx = js_opt (clientContext ctx) ''custom''"

definition context_tool_name :: "lambda_context \<Rightarrow> json" where
  "context_tool_name ctx =
     js_or (js_opt (js_opt (clientContext ctx) ''custom'') ''bedrockAgentCoreToolName'')
           (js_opt (js_opt (clientContext ctx) ''Custom'') ''bedrockAgentCoreToolName'')"

subsection \<open>Classification\<close>

datatype legacy_field = Name | ToolName | Tool_name

datatype EnvelopeKind =
    GatewayManaged
  | EmptyPayload
  | JsonRpcCall
  | LegacyOperationId
  | LegacyPrefixedName legacy_field
  | QueueMessage
  | HttpProxy
  | EventBus
  | DirectInvoke

definition is_gateway :: "lambda_context \<Rightarrow> bool" where
  "is_gateway ctx =
     (truthy (customContext ctx) \<and> truthy (js_get (customContext ctx) ''bedrockAgentCoreToolName''))"

definition is_empty :: "json \<Rightarrow> bool" where
  "is_empty event = (length (object_keys event) = 0)"

definition is_tools_call :: "json \<Rightarrow> bool" where
  "is_tools_call event = (js_get event ''method'' = JStr ''tools/call'')"

definition is_operation :: "json \<Rightarrow> bool" where
  "is_operation event =
     (truthy (js_get event ''operationId'') \<or>
      (truthy (js_get event ''context'') \<and> js_get (js_get event ''context'') ''input'' \<noteq> JUndef))"

definition is_records :: "json \<Rightarrow> bool" where
  "is_records event =
     (truthy (js_get event ''Records'') \<and>
      (case js_get event ''Records'' of JArr xs \<Rightarrow> True | _ \<Rightarrow> False))"

definition is_api_gateway :: "json \<Rightarrow> bool" where
  "is_api_gateway event =
     (truthy (js_get event ''httpMethod'') \<or> truthy (js_get event ''requestContext''))"

definition is_event_bridge :: "json \<Rightarrow> bool" where
  "is_event_bridge event =
     (truthy (js_get event ''source'') \<and> js_get event ''source'' = JStr ''aws.events'')"

text \<open>The \<open>if\<close>/\<open>else if\<close> chain of the handler, reduced to the branch it takes.
  The three tests of a legacy name call \<open>startsWith\<close> on whatever the field holds.\<close>

definition classify :: "lambda_context \<Rightarrow> json \<Rightarrow> exn + EnvelopeKind" where
  "classify ctx event =
     (if is_gateway ctx then Inr GatewayManaged
      else if is_empty event then Inr EmptyPayload
      else if is_tools_call event \<and> truthy (js_get event ''params'') then Inr JsonRpcCall
      else if is_operation event then Inr LegacyOperationId
      else bind (and_startsWith (js_get event ''name'') target_prefix) (\<lambda>b1.
        if b1 then Inr (LegacyPrefixedName Name)
        else bind (and_startsWith (js_get event ''toolName'') target_prefix) (\<lambda>b2.
          if b2 then Inr (LegacyPrefixedName ToolName)
          else bind (and_startsWith (js_get event ''tool_name'') target_prefix) (\<lambda>b3.
            if b3 then Inr (LegacyPrefixedName Tool_name)
            else if is_records event then Inr QueueMessage
            else if is_api_gateway event then Inr HttpProxy
            else if is_event_bridge event then Inr EventBus
            else Inr DirectInvoke))))"

subsection \<open>Extraction of the tool name and the parameters\<close>

datatype resolved = Respond json | Dispatch json json

text \<open>The gateway branch: \<open>includes\<close>, then \<open>substring(indexOf(delimiter) + 3)\<close>
  and \<open>replace('kintone-', '')\<close>. An array has \<open>includes\<close> but no \<open>substring\<close>.\<close>

definition gateway_tool :: "json \<Rightarrow> exn + json" where
  "gateway_tool originalToolName =
     (case originalToolName of
        JStr s \<Rightarrow>
          (case index_of delimiter s of
             Some i \<Rightarrow> Inr (JStr (replace family_prefix [] (drop (i + length delimiter) s)))
           | None \<Rightarrow> Inr (JStr s))
      | JArr xs \<Rightarrow>
          if List.member xs (JStr delimiter) then Inl TypeError else Inr (JArr xs)
      | _ \<Rightarrow> Inl TypeError)"

text \<open>\<open>name.replace('MyKintoneTarget___', '').replace('kintone-', '')\<close>, applied
  once \<open>startsWith\<close> has answered true (so to a string).\<close>

definition strip_target :: "json \<Rightarrow> json" where
  "strip_target v =
     (case v of
        JStr s \<Rightarrow> JStr (replace family_prefix [] (replace target_prefix [] s))
      | _ \<Rightarrow> v)"

definition object_prototype_keys :: "string list" where
  "object_prototype_keys =
     [''constructor'', ''__proto__'', ''hasOwnProperty'', ''isPrototypeOf'',
      ''propertyIsEnumerable'', ''toLocaleString'', ''toString'', ''valueOf'',
      ''__defineGetter__'', ''__defineSetter__'', ''__lookupGetter__'', ''__lookupSetter__'']"

text \<open>\<open>table[v]\<close> on an object literal of strings: the key is \<open>String(v)\<close>; a key
  the table does not have is looked up in \<open>Object.prototype\<close>.\<close>

definition table_lookup :: "(string \<times> string) list \<Rightarrow> json \<Rightarrow> json" where
  "table_lookup tbl v =
     (case map_of tbl (js_to_string v) of
        Some x \<Rightarrow> JStr x
      | None \<Rightarrow> if List.member object_prototype_keys (js_to_string v)
                then JFun (js_to_string v) else JUndef)"

definition toolMapping :: "(string \<times> string) list" where
  "toolMapping =
     [(''getApps'', ''get-apps''), (''getApp'', ''get-app''),
      (''getRecords'', ''get-records''), (''addRecords'', ''add-records''),
      (''getFormFields'', ''get-form-fields''), (''createPayment'', ''get-apps''),
      (''processRefund'', ''get-apps'')]"

definition cors_headers :: json where
  "cors_headers =
     JObj [(''Content-Type'', JStr ''application/json''),
           (''Access-Control-Allow-Origin'', JStr ''*'')]"

definition http_response1 :: "env \<Rightarrow> int \<Rightarrow> json \<Rightarrow> json" where
  "http_response1 env status payload =
     JObj [(''statusCode'', JNum status), (''headers'', cors_headers),
           (''body'', JStr (json_stringify env payload))]"

definition extract_request :: "env \<Rightarrow> EnvelopeKind \<Rightarrow> lambda_context \<Rightarrow> json \<Rightarrow> exn + resolved" where
  "extract_request env kind ctx event =
     (case kind of
        GatewayManaged \<Rightarrow>
          bind (gateway_tool (js_get (customContext ctx) ''bedrockAgentCoreToolName''))
            (\<lambda>tool. Inr (Dispatch tool event))
      | EmptyPayload \<Rightarrow> Inr (Dispatch (JStr ''get-apps'') (JObj []))
      | JsonRpcCall \<Rightarrow>
          (let toolName = js_get (js_get event ''params'') ''name'';
               toolArgs = js_or (js_get (js_get event ''params'') ''arguments'') (JObj [])
           in bind (and_startsWith toolName target_prefix) (\<lambda>b.
                Inr (Dispatch (if b then strip_target toolName else toolName) toolArgs)))
      | LegacyOperationId \<Rightarrow>
          (let operationId = js_get event ''operationId'';
               tool = (if truthy operationId
                       then js_or (table_lookup toolMapping operationId) operationId
                       else JUndef)
           in Inr (Dispatch tool (js_or (js_opt (js_get event ''context'') ''input'') (JObj []))))
      | LegacyPrefixedName Name \<Rightarrow>
          Inr (Dispatch (strip_target (js_get event ''name''))
                 (js_or (js_get event ''arguments'') (JObj [])))
      | LegacyPrefixedName ToolName \<Rightarrow>
          Inr (Dispatch (strip_target (js_get event ''toolName''))
                 (js_or (js_get event ''arguments'') (js_or (js_get event ''params'') (JObj []))))
      | LegacyPrefixedName Tool_name \<Rightarrow>
          Inr (Dispatch (strip_target (js_get event ''tool_name''))
                 (js_or (js_get event ''arguments'') (js_or (js_get event ''params'') (JObj []))))
      | QueueMessage \<Rightarrow>
          bind (js_prop (case js_get event ''Records'' of JArr (r # rs) \<Rightarrow> r | _ \<Rightarrow> JUndef) ''body'')
            (\<lambda>body.
              if truthy body
              then (case json_parse env (js_to_string body) of
                      None \<Rightarrow> Inl (Error msg_sqs_body_invalid)
                    | Some bodyData \<Rightarrow>
                        if nullish bodyData then Inl (Error msg_sqs_body_invalid)
                        else Inr (Dispatch (js_get bodyData ''tool'') (js_get bodyData ''params'')))
              else Inr (Dispatch JUndef JUndef))
      | HttpProxy \<Rightarrow>
          (if truthy (js_get event ''body'')
           then (case json_parse env (js_to_string (js_get event ''body'')) of
                   None \<Rightarrow>
                     Inr (Respond (http_response1 env 400
                            (JObj [(''success'', JBool False), (''error'', JStr msg_body_invalid)])))
                 | Some requestData \<Rightarrow>
                     bind (js_prop requestData ''tool'')
                       (\<lambda>tool. Inr (Dispatch tool (js_get requestData ''params''))))
           else Inr (Dispatch JUndef JUndef))
      | EventBus \<Rightarrow>
          Inr (Dispatch (js_opt (js_get event ''detail'') ''tool'')
                 (js_or (js_opt (js_get event ''detail'') ''params'') (JObj [])))
      | DirectInvoke \<Rightarrow> Inr (Dispatch (js_get event ''tool'') (js_get event ''params'')))"

subsection \<open>Normalisation of the tool name\<close>

text \<open>The request details that are logged after the extraction include
  \<open>isLegacyGateway\<close>, which calls \<open>startsWith\<close> on the three legacy fields again,
  left to right until one answers true.\<close>

definition log_request_details :: "json \<Rightarrow> exn + unit" where
  "log_request_details event =
     bind (and_startsWith (js_get event ''name'') target_prefix) (\<lambda>b1.
       if b1 then Inr ()
       else bind (and_startsWith (js_get event ''toolName'') target_prefix) (\<lambda>b2.
         if b2 then Inr ()
         else bind (and_startsWith (js_get event ''tool_name'') target_prefix) (\<lambda>b3. Inr ())))"

definition toolNameMapping :: "(string \<times> string) list" where
  "toolNameMapping =
     [(''get-apps'', ''get-apps''), (''get-app'', ''get-app''),
      (''get-records'', ''get-records''), (''add-records'', ''add-records''),
      (''get-form-fields'', ''get-form-fields''), (''update-records'', ''update-records''),
      (''delete-records'', ''delete-records'')]"

text \<open>\<open>if (tool && tool.startsWith('kintone-')) tool = tool.replace('kintone-', '')\<close>.\<close>

definition strip_family :: "json \<Rightarrow> exn + json" where
  "strip_family tool =
     bind (and_startsWith tool family_prefix) (\<lambda>b.
       Inr (if b then (case tool of JStr s \<Rightarrow> JStr (replace family_prefix [] s) | _ \<Rightarrow> tool)
            else tool))"

text \<open>\<open>if (tool && toolNameMapping[tool]) tool = toolNameMapping[tool]\<close>.\<close>

definition apply_mapping :: "json \<Rightarrow> json" where
  "apply_mapping tool =
     (if truthy tool \<and> truthy (table_lookup toolNameMapping tool)
      then table_lookup toolNameMapping tool else tool)"

definition normalize_tool :: "json \<Rightarrow> exn + json" where
  "normalize_tool tool = bind (strip_family tool) (\<lambda>t. Inr (apply_mapping t))"

subsection \<open>Responses\<close>

text \<open>\<open>event.id || 1\<close>.\<close>

definition rpc_id :: "json \<Rightarrow> json" where
  "rpc_id event = js_or (js_get event ''id'') (JNum 1)"

definition rpc_error :: "json \<Rightarrow> int \<Rightarrow> string \<Rightarrow> json option \<Rightarrow> json" where
  "rpc_error event code message data =
     JObj [(''jsonrpc'', JStr ''2.0''), (''id'', rpc_id event),
           (''error'', JObj ([(''code'', JNum code), (''message'', JStr message)] @
                             (case data of None \<Rightarrow> [] | Some d \<Rightarrow> [(''data'', d)])))]"

definition rpc_result :: "env \<Rightarrow> json \<Rightarrow> json \<Rightarrow> json" where
  "rpc_result env event result =
     JObj [(''jsonrpc'', JStr ''2.0''), (''id'', rpc_id event),
           (''result'',
              JObj [(''isError'', JBool (\<not> truthy (js_get result ''success''))),
                    (''content'',
                       JArr [JObj [(''type'', JStr ''text''),
                                   (''text'', JStr (json_stringify env result))]])])]"

text \<open>The condition under which a response is wrapped as an HTTP response: a gateway
  tool name on the context, an operation id or a context input, a \<open>name\<close> with the
  target prefix, \<open>httpMethod\<close> or \<open>requestContext\<close>. The operands of \<open>||\<close> are
  evaluated left to right until one is truthy.\<close>

definition is_http_shaped :: "lambda_context \<Rightarrow> json \<Rightarrow> exn + bool" where
  "is_http_shaped ctx event =
     (if truthy (context_tool_name ctx) then Inr True
      else if is_operation event then Inr True
      else bind (and_startsWith (js_get event ''name'') target_prefix) (\<lambda>b.
        Inr (b \<or> truthy (js_get event ''httpMethod'') \<or> truthy (js_get event ''requestContext''))))"

text \<open>The three ways out that every return site of the handler has: the JSON-RPC
  object of the site when the method is \<open>tools/call\<close>, the payload as the body of an
  HTTP response with the site's status, or the payload itself.\<close>

definition render1 :: "env \<Rightarrow> lambda_context \<Rightarrow> json \<Rightarrow> json \<Rightarrow> int \<Rightarrow> json \<Rightarrow> exn + json" where
  "render1 env ctx event rpc status payload =
     (if is_tools_call event then Inr rpc
      else bind (is_http_shaped ctx event) (\<lambda>b.
        Inr (if b then http_response1 env status payload else payload)))"

definition debug_info :: "lambda_context \<Rightarrow> json \<Rightarrow> json" where
  "debug_info ctx event =
     JObj [(''eventKeys'', JArr (map JStr (object_keys event))),
           (''eventType'', JStr (js_typeof event)),
           (''hasMethod'', JBool (truthy (js_get event ''method''))),
           (''hasOperationId'', JBool (truthy (js_get event ''operationId''))),
           (''hasName'', JBool (truthy (js_get event ''name''))),
           (''hasToolName'', JBool (truthy (js_get event ''toolName''))),
           (''hasClientContext'', JBool (truthy (clientContext ctx))),
           (''hasCustomContext'',
              JBool (truthy (js_or (js_opt (clientContext ctx) ''custom'')
                                   (js_opt (clientContext ctx) ''Custom'')))),
           (''bedrockAgentCoreToolName'', context_tool_name ctx)]"

definition missing_tool1 :: "env \<Rightarrow> lambda_context \<Rightarrow> json \<Rightarrow> exn + json" where
  "missing_tool1 env ctx event =
     render1 env ctx event
       (rpc_error event (- 32602) msg_tool_not_specified (Some (debug_info ctx event)))
       400
       (JObj [(''success'', JBool False), (''error'', JStr msg_tool_not_specified),
              (''debug'', debug_info ctx event)])"

definition available_tools1 :: json where
  "available_tools1 =
     JObj [(''availableTools'',
            JArr (map JStr [''get-apps'', ''get-app'', ''get-records'', ''add-records'',
                            ''get-form-fields'', ''update-records'', ''delete-records'']))]"

definition unsupported_tool1 :: "env \<Rightarrow> lambda_context \<Rightarrow> json \<Rightarrow> json \<Rightarrow> exn + json" where
  "unsupported_tool1 env ctx event tool =
     render1 env ctx event
       (rpc_error event (- 32601) (msg_unsupported_tool @ js_to_string tool) (Some available_tools1))
       400
       (JObj [(''success'', JBool False),
              (''error'', JStr (msg_unsupported_tool @ js_to_string tool))])"

definition tool_result1 :: "env \<Rightarrow> lambda_context \<Rightarrow> json \<Rightarrow> json \<Rightarrow> exn + json" where
  "tool_result1 env ctx event result =
     render1 env ctx event (rpc_result env event result) 200 result"

subsection \<open>The handler\<close>

text \<open>From the classification to the tool name that reaches the \<open>switch\<close>: either
  a response is returned on the way (an unparsable HTTP body, no tool name), or the
  tool and its parameters go on to the dispatch.\<close>

definition resolve1 :: "env \<Rightarrow> lambda_context \<Rightarrow> json \<Rightarrow> exn + resolved" where
  "resolve1 env ctx event =
     bind (classify ctx event) (\<lambda>kind.
     bind (extract_request env kind ctx event) (\<lambda>x.
       case x of
         Respond r \<Rightarrow> Inr (Respond r)
       | Dispatch tool0 params \<Rightarrow>
           bind (log_request_details event) (\<lambda>u.
           bind (normalize_tool tool0) (\<lambda>tool.
             if \<not> truthy tool
             then bind (missing_tool1 env ctx event) (\<lambda>r. Inr (Respond r))
             else Inr (Dispatch tool params)))))"

definition dispatch1 :: "env \<Rightarrow> lambda_context \<Rightarrow> json \<Rightarrow> json \<Rightarrow> json \<Rightarrow> exn + json" where
  "dispatch1 env ctx event tool params =
     bind (run_tool env tool params) (\<lambda>r.
       case r of
         Some result \<Rightarrow> tool_result1 env ctx event result
       | None \<Rightarrow> unsupported_tool1 env ctx event tool)"

text \<open>The body of the \<open>try\<close>.\<close>

definition try1 :: "env \<Rightarrow> lambda_context \<Rightarrow> json \<Rightarrow> exn + json" where
  "try1 env ctx event =
     bind (getKintoneConfig env) (\<lambda>config.
     bind (createKintoneClient env config) (\<lambda>client.
     bind (resolve1 env ctx event) (\<lambda>x.
       case x of
         Respond r \<Rightarrow> Inr r
       | Dispatch tool params \<Rightarrow> dispatch1 env ctx event tool params)))"

text \<open>The \<open>catch\<close>: the response of an error. Its own test of the legacy name can
  throw again, which nothing catches.\<close>

definition catch1 :: "env \<Rightarrow> lambda_context \<Rightarrow> json \<Rightarrow> exn \<Rightarrow> exn + json" where
  "catch1 env ctx event e =
     (let errorMessage = message_or env e msg_internal_server_error
      in render1 env ctx event
           (rpc_error event (- 32603) errorMessage
              (Some (JObj [(''timestamp'', JStr (clock env))])))
           500
           (JObj [(''success'', JBool False), (''error'', JStr errorMessage),
                  (''timestamp'', JStr (clock env))]))"

text \<open>The handler: \<open>Inl\<close> is a rejected promise (an exception nothing caught).
  Before the \<open>try\<close>, the event's keys are logged, which throws on \<open>null\<close>.\<close>

definition handler1 :: "env \<Rightarrow> lambda_context \<Rightarrow> json \<Rightarrow> exn + json" where
  "handler1 env ctx event =
     (if nullish event then Inl TypeError
      else case try1 env ctx event of
             Inr r \<Rightarrow> Inr r
           | Inl e \<Rightarrow> catch1 env ctx event e)"

section \<open>The three-pattern entry point\<close>

text \<open>The second handler of the repository: a gateway invocation, a JSON-RPC
  \<open>tools/call\<close>, or a direct invocation. Its configuration, schemas and tools are
  those above.\<close>

text \<open>\<open>extractToolName\<close>: the last part of \<open>toolName.split('___')\<close>. An array
  has \<open>includes\<close> but no \<open>split\<close>.\<close>

definition extractToolName :: "json \<Rightarrow> exn + json" where
  "extractToolName toolName =
     (if truthy toolName
      then (case toolName of
              JStr s \<Rightarrow>
                if str_includes delimiter s then Inr (JStr (last (js_split delimiter s)))
                else Inr (JStr s)
            | JArr xs \<Rightarrow>
                if List.member xs (JStr delimiter) then Inl TypeError else Inr (JArr xs)
            | _ \<Rightarrow> Inl TypeError)
      else Inr toolName)"

definition json_headers :: json where
  "json_headers = JObj [(''Content-Type'', JStr ''application/json'')]"

definition http_response2 :: "env \<Rightarrow> int \<Rightarrow> json \<Rightarrow> json" where
  "http_response2 env status payload =
     JObj [(''statusCode'', JNum status), (''headers'', json_headers),
           (''body'', JStr (json_stringify env payload))]"

text \<open>Every return site: \<open>event.method\<close> is read first (a TypeError when the event
  is \<open>null\<close>), then the gateway tool name of the context decides.\<close>

definition render2 :: "env \<Rightarrow> lambda_context \<Rightarrow> json \<Rightarrow> json \<Rightarrow> int \<Rightarrow> json \<Rightarrow> exn + json" where
  "render2 env ctx event rpc status payload =
     bind (js_prop event ''method'') (\<lambda>m.
       if m = JStr ''tools/call'' then Inr rpc
       else if truthy (js_opt (customContext ctx) ''bedrockAgentCoreToolName'')
       then Inr (http_response2 env status payload)
       else Inr payload)"

definition missing_tool2 :: "env \<Rightarrow> lambda_context \<Rightarrow> json \<Rightarrow> exn + json" where
  "missing_tool2 env ctx event =
     render2 env ctx event
       (rpc_error event (- 32602) msg_tool_not_specified None)
       400
       (JObj [(''success'', JBool False), (''error'', JStr msg_tool_not_specified)])"

definition available_tools2 :: json where
  "available_tools2 =
     JObj [(''availableTools'',
            JArr (map JStr [''get-apps'', ''get-app'', ''get-records'', ''add-records'',
                            ''get-form-fields'']))]"

definition unsupported_tool2 :: "env \<Rightarrow> lambda_context \<Rightarrow> json \<Rightarrow> json \<Rightarrow> exn + json" where
  "unsupported_tool2 env ctx event tool =
     render2 env ctx event
       (rpc_error event (- 32601) (msg_unsupported_tool @ js_to_string tool) (Some available_tools2))
       400
       (JObj [(''success'', JBool False),
              (''error'', JStr (msg_unsupported_tool @ js_to_string tool))])"

definition tool_result2 :: "env \<Rightarrow> lambda_context \<Rightarrow> json \<Rightarrow> json \<Rightarrow> exn + json" where
  "tool_result2 env ctx event result =
     render2 env ctx event (rpc_result env event result) 200 result"

text \<open>The three patterns, in the order of the source.\<close>

definition extract_request2 :: "lambda_context \<Rightarrow> json \<Rightarrow> exn + resolved" where
  "extract_request2 ctx event =
     (if is_gateway ctx
      then bind (extractToolName (js_get (customContext ctx) ''bedrockAgentCoreToolName''))
             (\<lambda>toolName. Inr (Dispatch toolName event))
      else bind (js_prop event ''method'') (\<lambda>m.
        if m = JStr ''tools/call'' \<and> truthy (js_get event ''params'')
        then bind (extractToolName (js_get (js_get event ''params'') ''name''))
               (\<lambda>toolName.
                  Inr (Dispatch toolName
                         (js_or (js_get (js_get event ''params'') ''arguments'') (JObj []))))
        else Inr (Dispatch (js_get event ''tool'')
                    (js_or (js_get event ''params'') (JObj [])))))"

definition resolve2 :: "env \<Rightarrow> lambda_context \<Rightarrow> json \<Rightarrow> exn + resolved" where
  "resolve2 env ctx event =
     bind (extract_request2 ctx event) (\<lambda>x.
       case x of
         Respond r \<Rightarrow> Inr (Respond r)
       | Dispatch tool0 params \<Rightarrow>
           bind (strip_family tool0) (\<lambda>toolName.
             if \<not> truthy toolName
             then bind (missing_tool2 env ctx event) (\<lambda>r. Inr (Respond r))
             else Inr (Dispatch toolName params)))"

definition dispatch2 :: "env \<Rightarrow> lambda_context \<Rightarrow> json \<Rightarrow> json \<Rightarrow> json \<Rightarrow> exn + json" where
  "dispatch2 env ctx event tool params =
     bind (run_tool env tool params) (\<lambda>r.
       case r of
         Some result \<Rightarrow> tool_result2 env ctx event result
       | None \<Rightarrow> unsupported_tool2 env ctx event tool)"

definition try2 :: "env \<Rightarrow> lambda_context \<Rightarrow> json \<Rightarrow> exn + json" where
  "try2 env ctx event =
     bind (getKintoneConfig env) (\<lambda>config.
     bind (createKintoneClient env config) (\<lambda>client.
     bind (resolve2 env ctx event) (\<lambda>x.
       case x of
         Respond r \<Rightarrow> Inr r
       | Dispatch tool params \<Rightarrow> dispatch2 env ctx event tool params)))"

definition catch2 :: "env \<Rightarrow> lambda_context \<Rightarrow> json \<Rightarrow> exn \<Rightarrow> exn + json" where
  "catch2 env ctx event e =
     (let errorMessage = message_or env e msg_internal_server_error
      in render2 env ctx event
           (rpc_error event (- 32603) errorMessage None)
           500
           (JObj [(''success'', JBool False), (''error'', JStr errorMessage),
                  (''timestamp'', JStr (clock env))]))"

definition handler2 :: "env \<Rightarrow> lambda_context \<Rightarrow> json \<Rightarrow> exn + json" where
  "handler2 env ctx event =
     (case try2 env ctx event of
        Inr r \<Rightarrow> Inr r
      | Inl e \<Rightarrow> catch2 env ctx event e)"

section \<open>Schemas by tool name, outcomes and response forms\<close>

text \<open>The parameter schema of a tool name (section 4.3 of the specification), as
  the \<open>switch\<close> applies them.\<close>

definition tool_schema :: "string \<Rightarrow> (string \<times> ztype) list option" where
  "tool_schema t =
     (if t = ''get-records'' then Some getRecordsSchema
      else if t = ''get-app'' then Some getAppSchema
      else if t = ''add-records'' then Some addRecordsSchema
      else if t = ''get-form-fields'' then Some getAppSchema
      else None)"

text \<open>An outcome: the uniform result of a tool, or a failure object of the
  handler. It has a boolean \<open>success\<close> and is neither a JSON-RPC nor an HTTP
  envelope.\<close>

definition is_outcome :: "json \<Rightarrow> bool" where
  "is_outcome v =
     ((js_get v ''success'' = JBool True \<or> js_get v ''success'' = JBool False) \<and>
      js_get v ''jsonrpc'' = JUndef \<and> js_get v ''statusCode'' = JUndef)"

text \<open>The rendered responses of the specification (section 3): a JSON-RPC
  envelope, an HTTP envelope around an outcome, or a bare outcome. The HTTP envelope
  is a parameter, since the two entry points differ in its headers.\<close>

inductive response_form :: "env \<Rightarrow> json \<Rightarrow> (int \<Rightarrow> json \<Rightarrow> json) \<Rightarrow> json \<Rightarrow> bool"
  for env :: env and event :: json and http :: "int \<Rightarrow> json \<Rightarrow> json"
where
  rpc_error_form: "response_form env event http (rpc_error event code message data)"
| rpc_result_form: "response_form env event http (rpc_result env event result)"
| http_form: "is_outcome p \<Longrightarrow> response_form env event http (http status p)"
| bare_form: "is_outcome p \<Longrightarrow> response_form env event http p"

section \<open>Sample invocations\<close>

text \<open>A serialiser for the sample environment: the JSON text of a value (strings
  without escapes); the members of an object whose value is \<open>undefined\<close> are left
  out, in an array \<open>undefined\<close> is written \<open>null\<close>.\<close>

fun omitted :: "json \<Rightarrow> bool" where
  "omitted JUndef = True"
| "omitted (JFun k) = True"
| "omitted v = False"

fun json_text :: "json \<Rightarrow> string" where
  "json_text JUndef = ''null''"
| "json_text JNull = ''null''"
| "json_text (JBool b) = (if b then ''true'' else ''false'')"
| "json_text (JNum n) = (if n < 0 then ''-'' @ show_nat (nat (- n)) else show_nat (nat n))"
| "json_text (JStr s) = [CHR 0x22] @ s @ [CHR 0x22]"
| "json_text (JArr xs) = ''['' @ join_with '','' (map json_text xs) @ '']''"
| "json_text (JObj kvs) =
     ''{'' @ join_with '',''
       (map (\<lambda>kv. [CHR 0x22] @ fst kv @ [CHR 0x22] @ '':'' @ json_text (snd kv))
          (filter (\<lambda>kv. \<not> omitted (snd kv)) kvs)) @ ''}''"
| "json_text (JFun k) = ''null''"

text \<open>A configured environment whose client is constructed, lists no apps and
  fails every other call, and two contexts: one of a gateway invocation of the
  named tool, one without a client context.\<close>

definition sample_env :: env where
  "sample_env =
     \<lparr> process_env =
         [''KINTONE_BASE_URL'' \<mapsto> ''https://example.cybozu.com'',
          ''KINTONE_USERNAME'' \<mapsto> ''user'', ''KINTONE_PASSWORD'' \<mapsto> ''secret''],
       new_client = (\<lambda>c. None),
       kintone = (\<lambda>m a. if m = ''app.getApps'' then Inr (JObj [(''apps'', JArr [])])
                         else Inl (Error ''network error'')),
       json_parse = (\<lambda>s. None),
       json_stringify = json_text,
       clock = ''2025-01-01T00:00:00.000Z'',
       lib_message = (\<lambda>e. ''<library message>'') \<rparr>"

definition gateway_context :: "string \<Rightarrow> lambda_context" where
  "gateway_context n =
     \<lparr> clientContext = JObj [(''custom'', JObj [(''bedrockAgentCoreToolName'', JStr n)])] \<rparr>"

definition plain_context :: lambda_context where
  "plain_context = \<lparr> clientContext = JUndef \<rparr>"

section \<open>Facts about the string operations\<close>

lemma starts_with_append: "starts_with p (p @ r)"
  by (induction p) auto

lemma index_of_zero: "index_of p s = Some 0 \<longleftrightarrow> starts_with p s"
  by (cases s; cases p) (auto split: if_splits)

lemma index_of_starts: "starts_with p s \<Longrightarrow> index_of p s = Some 0"
  by (simp add: index_of_zero)

lemma replace_prefix: "replace p [] (p @ r) = r"
  by (simp add: replace_def index_of_starts starts_with_append)

lemma js_split_nonempty: "d \<noteq> [] \<Longrightarrow> js_split d s \<noteq> []"
  by (subst js_split.simps) (auto split: option.splits)

lemma js_split_none: "d \<noteq> [] \<Longrightarrow> index_of d s = None \<Longrightarrow> js_split d s = [s]"
  by (subst js_split.simps) simp

lemma js_split_some:
  "d \<noteq> [] \<Longrightarrow> index_of d s = Some i \<Longrightarrow>
   js_split d s = take i s # js_split d (drop (i + length d) s)"
  by (subst js_split.simps) simp

lemma last_split_le: "d \<noteq> [] \<Longrightarrow> length (last (js_split d s)) \<le> length s"
proof (induction d s rule: js_split.induct)
  case (1 d s)
  show ?case
  proof (cases "index_of d s")
    case None
    with "1.prems" show ?thesis by (simp add: js_split_none)
  next
    case (Some i)
    from "1.IH" [OF "1.prems" Some "1.prems"]
    have "length (last (js_split d (drop (i + length d) s))) \<le> length s" by simp
    with Some "1.prems" show ?thesis
      by (simp add: js_split_some js_split_nonempty)
  qed
qed

lemma last_split_less:
  assumes "d \<noteq> []" "index_of d s = Some i"
  shows "length (last (js_split d s)) < length s"
proof -
  from index_of_bound [OF assms(2)] have b: "i + length d \<le> length s" by simp
  from assms(1) have "0 < length d" by simp
  with b have "length s - (i + length d) < length s" by arith
  then have "length (drop (i + length d) s) < length s" by simp
  moreover have "length (last (js_split d (drop (i + length d) s))) \<le> length (drop (i + length d) s)"
    by (rule last_split_le [OF assms(1)])
  ultimately show ?thesis using assms
    by (simp add: js_split_some js_split_nonempty)
qed

lemma last_split_suffix: "d \<noteq> [] \<Longrightarrow> \<exists>u. s = u @ last (js_split d s)"
proof (induction d s rule: js_split.induct)
  case (1 d s)
  show ?case
  proof (cases "index_of d s")
    case None
    with "1.prems" show ?thesis by (simp add: js_split_none)
  next
    case (Some i)
    from "1.IH" [OF "1.prems" Some "1.prems"]
    obtain u where u: "drop (i + length d) s = u @ last (js_split d (drop (i + length d) s))" by blast
    have "s = take (i + length d) s @ drop (i + length d) s" by simp
    with u have "s = (take (i + length d) s @ u) @ last (js_split d (drop (i + length d) s))"
      by (metis append.assoc)
    then have "\<exists>v. s = v @ last (js_split d (drop (i + length d) s))" ..
    with Some "1.prems" show ?thesis
      by (simp add: js_split_some js_split_nonempty)
  qed
qed

lemma index_of_first:
  "index_of p s = Some i \<Longrightarrow> j < i \<Longrightarrow> \<not> starts_with p (drop j s)"
proof (induction s arbitrary: i j)
  case Nil
  then show ?case by (auto split: if_splits)
next
  case (Cons c cs)
  show ?case
  proof (cases "starts_with p (c # cs)")
    case True
    with Cons.prems show ?thesis by simp
  next
    case False
    with Cons.prems obtain i' where i': "index_of p cs = Some i'" "i = Suc i'"
      by auto
    show ?thesis
    proof (cases j)
      case 0
      with False show ?thesis by simp
    next
      case (Suc j')
      with Cons.prems(2) i'(2) have "j' < i'" by simp
      from Cons.IH [OF i'(1) this] Suc show ?thesis by simp
    qed
  qed
qed

section \<open>Tool-name resolution\<close>

text \<open>
  Claim C7. Resolution is idempotent on each of the seven canonical ids (the keys of
  the identity table \<open>toolNameMapping\<close>): the normalisation of the multi-envelope
  entry point (family-prefix stripping, then the table) returns the id; so does its
  gateway branch (delimiter stripping) followed by the normalisation; its JSON-RPC and
  legacy branches leave the id alone, since it does not begin with the target prefix;
  and so does \<open>extractToolName\<close> followed by the family-prefix stripping in the
  three-pattern entry point.
\<close>

theorem canonical_ids_resolve_to_themselves:
  "t \<in> set (map fst toolNameMapping) \<Longrightarrow>
   normalize_tool (JStr t) = Inr (JStr t) \<and>
   bind (gateway_tool (JStr t)) normalize_tool = Inr (JStr t) \<and>
   and_startsWith (JStr t) target_prefix = Inr False \<and>
   bind (extractToolName (JStr t)) strip_family = Inr (JStr t)"
  by (auto simp: toolNameMapping_def normalize_tool_def strip_family_def and_startsWith_def
    call_startsWith_def family_prefix_def bind_def apply_mapping_def table_lookup_def
    gateway_tool_def delimiter_def target_prefix_def extractToolName_def str_includes_def)

text \<open>The theorem at \<open>get-apps\<close>.\<close>

theorem canonical_ids_resolve_to_themselves_witness:
  "''get-apps'' \<in> set (map fst toolNameMapping) \<and>
   normalize_tool (JStr ''get-apps'') = Inr (JStr ''get-apps'') \<and>
   bind (gateway_tool (JStr ''get-apps'')) normalize_tool = Inr (JStr ''get-apps'') \<and>
   and_startsWith (JStr ''get-apps'') target_prefix = Inr False \<and>
   bind (extractToolName (JStr ''get-apps'')) strip_family = Inr (JStr ''get-apps'')"
proof -
  have m: "''get-apps'' \<in> set (map fst toolNameMapping)"
    by (simp add: toolNameMapping_def)
  from canonical_ids_resolve_to_themselves [OF m] m show ?thesis by simp
qed

text \<open>
  Claim C10. In the gateway, JSON-RPC and legacy-name branches of the multi-envelope
  entry point the family prefix is removed by \<open>replace('kintone-', '')\<close>, which
  deletes the first occurrence of \<open>kintone-\<close> wherever it stands in the
  delimiter-stripped name \<open>r\<close> (at index \<open>i\<close>); the later normalisation
  \<open>strip_family\<close> removes it only when the name begins with it (\<open>i = 0\<close>) and
  otherwise leaves the name unchanged.
\<close>

theorem family_prefix_removed_anywhere:
  assumes r: "index_of family_prefix r = Some i"
      and raw: "index_of delimiter raw = Some k" "drop (k + length delimiter) raw = r"
  shows "starts_with family_prefix (drop i r) \<and>
         (\<forall>j<i. \<not> starts_with family_prefix (drop j r)) \<and>
         gateway_tool (JStr raw) = Inr (JStr (take i r @ drop (i + length family_prefix) r)) \<and>
         strip_target (JStr (target_prefix @ r)) = JStr (take i r @ drop (i + length family_prefix) r) \<and>
         strip_family (JStr r) = Inr (JStr (if i = 0 then drop (length family_prefix) r else r))"
proof -
  have 0: "starts_with family_prefix (drop i r) \<and> (\<forall>j<i. \<not> starts_with family_prefix (drop j r))"
    using index_of_bound [OF r] index_of_first [OF r] by blast
  have rep: "replace family_prefix [] r = take i r @ drop (i + length family_prefix) r"
    using r by (simp add: replace_def)
  have 1: "gateway_tool (JStr raw) = Inr (JStr (take i r @ drop (i + length family_prefix) r))"
    using raw rep by (simp add: gateway_tool_def)
  have 2: "strip_target (JStr (target_prefix @ r)) = JStr (take i r @ drop (i + length family_prefix) r)"
    using rep by (simp add: strip_target_def replace_prefix)
  have ne: "r \<noteq> []" using r by (auto simp: family_prefix_def)
  have 3: "strip_family (JStr r) = Inr (JStr (if i = 0 then drop (length family_prefix) r else r))"
  proof (cases "i = 0")
    case True
    with r have "starts_with family_prefix r" by (simp add: index_of_zero)
    with ne True rep show ?thesis
      by (simp add: strip_family_def and_startsWith_def call_startsWith_def bind_def)
  next
    case False
    with r have "\<not> starts_with family_prefix r" by (auto simp: index_of_zero [symmetric])
    with ne False show ?thesis
      by (simp add: strip_family_def and_startsWith_def call_startsWith_def bind_def)
  qed
  from 0 1 2 3 show ?thesis by blast
qed

text \<open>The theorem at the remainder \<open>my-kintone-x\<close>: the three branches give
  \<open>my-x\<close>, the normalisation alone keeps \<open>my-kintone-x\<close>; and so the tool
  name that reaches the \<open>switch\<close> is \<open>my-x\<close> for a gateway invocation, a
  JSON-RPC call and a legacy name, and \<open>my-kintone-x\<close> for a direct invocation.\<close>

theorem family_prefix_removed_anywhere_witness:
  "index_of family_prefix ''my-kintone-x'' = Some 3 \<and>
   index_of delimiter ''T___my-kintone-x'' = Some 1 \<and>
   drop (1 + length delimiter) ''T___my-kintone-x'' = ''my-kintone-x'' \<and>
   gateway_tool (JStr ''T___my-kintone-x'') = Inr (JStr ''my-x'') \<and>
   strip_target (JStr ''MyKintoneTarget___my-kintone-x'') = JStr ''my-x'' \<and>
   strip_family (JStr ''my-kintone-x'') = Inr (JStr ''my-kintone-x'') \<and>
   resolve1 sample_env (gateway_context ''T___my-kintone-x'') (JObj [])
     = Inr (Dispatch (JStr ''my-x'') (JObj [])) \<and>
   resolve1 sample_env plain_context
     (JObj [(''method'', JStr ''tools/call''),
            (''params'', JObj [(''name'', JStr ''MyKintoneTarget___my-kintone-x'')])])
     = Inr (Dispatch (JStr ''my-x'') (JObj [])) \<and>
   resolve1 sample_env plain_context (JObj [(''name'', JStr ''MyKintoneTarget___my-kintone-x'')])
     = Inr (Dispatch (JStr ''my-x'') (JObj [])) \<and>
   resolve1 sample_env plain_context (JObj [(''tool'', JStr ''my-kintone-x'')])
     = Inr (Dispatch (JStr ''my-kintone-x'') JUndef)"
proof -
  have a: "index_of family_prefix ''my-kintone-x'' = Some 3"
    by (simp add: family_prefix_def)
  have b: "index_of delimiter ''T___my-kintone-x'' = Some 1"
    by (simp add: delimiter_def)
  have c: "drop (1 + length delimiter) ''T___my-kintone-x'' = ''my-kintone-x''"
    by (simp add: delimiter_def)
  from family_prefix_removed_anywhere [OF a b c] a b c
  have f: "index_of family_prefix ''my-kintone-x'' = Some 3 \<and>
   index_of delimiter ''T___my-kintone-x'' = Some 1 \<and>
   drop (1 + length delimiter) ''T___my-kintone-x'' = ''my-kintone-x'' \<and>
   gateway_tool (JStr ''T___my-kintone-x'') = Inr (JStr ''my-x'') \<and>
   strip_target (JStr ''MyKintoneTarget___my-kintone-x'') = JStr ''my-x'' \<and>
   strip_family (JStr ''my-kintone-x'') = Inr (JStr ''my-kintone-x'')"
    by (simp add: family_prefix_def target_prefix_def)
  have g: "resolve1 sample_env (gateway_context ''T___my-kintone-x'') (JObj [])
     = Inr (Dispatch (JStr ''my-x'') (JObj [])) \<and>
   resolve1 sample_env plain_context
     (JObj [(''method'', JStr ''tools/call''),
            (''params'', JObj [(''name'', JStr ''MyKintoneTarget___my-kintone-x'')])])
     = Inr (Dispatch (JStr ''my-x'') (JObj [])) \<and>
   resolve1 sample_env plain_context (JObj [(''name'', JStr ''MyKintoneTarget___my-kintone-x'')])
     = Inr (Dispatch (JStr ''my-x'') (JObj [])) \<and>
   resolve1 sample_env plain_context (JObj [(''tool'', JStr ''my-kintone-x'')])
     = Inr (Dispatch (JStr ''my-kintone-x'') JUndef)"
    by code_simp
  from f g show ?thesis by blast
qed

text \<open>
  Claim C6, as the code has it. For a raw tool id that contains the delimiter, at
  the first index \<open>i\<close>: the gateway branch of the multi-envelope entry point keeps
  what follows this first occurrence (and deletes the first \<open>kintone-\<close> from it),
  while \<open>extractToolName\<close> of the three-pattern entry point keeps the last part of
  \<open>split('___')\<close>. The last part is a suffix of what follows the first occurrence,
  and the two are equal exactly when the delimiter does not occur again after its
  first occurrence. The JSON-RPC branch of the multi-envelope entry point does not
  look for the delimiter: a name that does not begin with \<open>MyKintoneTarget___\<close>
  is kept whole.
\<close>

theorem delimiter_steps_agree_iff:
  assumes i: "index_of delimiter s = Some i"
  shows "starts_with delimiter (drop i s) \<and> (\<forall>j<i. \<not> starts_with delimiter (drop j s)) \<and>
         gateway_tool (JStr s) =
           Inr (JStr (replace family_prefix [] (drop (i + length delimiter) s))) \<and>
         extractToolName (JStr s) = Inr (JStr (last (js_split delimiter s))) \<and>
         (\<exists>u. drop (i + length delimiter) s = u @ last (js_split delimiter s)) \<and>
         (last (js_split delimiter s) = drop (i + length delimiter) s \<longleftrightarrow>
            \<not> str_includes delimiter (drop (i + length delimiter) s)) \<and>
         (\<not> starts_with target_prefix s \<longrightarrow>
            extract_request env JsonRpcCall ctx
              (JObj [(''method'', JStr ''tools/call''), (''params'', JObj [(''name'', JStr s)])])
              = Inr (Dispatch (JStr s) (JObj [])))"
proof -
  let ?r = "drop (i + length delimiter) s"
  have d: "delimiter \<noteq> []" by (simp add: delimiter_def)
  have ne: "s \<noteq> []" using i d by auto
  have 0: "starts_with delimiter (drop i s) \<and> (\<forall>j<i. \<not> starts_with delimiter (drop j s))"
    using index_of_bound [OF i] index_of_first [OF i] by blast
  have 1: "gateway_tool (JStr s) = Inr (JStr (replace family_prefix [] ?r))"
    using i by (simp add: gateway_tool_def)
  have 2: "extractToolName (JStr s) = Inr (JStr (last (js_split delimiter s)))"
    using i ne by (simp add: extractToolName_def str_includes_def)
  have l: "last (js_split delimiter s) = last (js_split delimiter ?r)"
    using i d by (simp add: js_split_some js_split_nonempty)
  have 3: "\<exists>u. ?r = u @ last (js_split delimiter s)"
    unfolding l by (rule last_split_suffix [OF d])
  have 4: "last (js_split delimiter s) = ?r \<longleftrightarrow> \<not> str_includes delimiter ?r"
  proof (cases "index_of delimiter ?r")
    case None
    with d l show ?thesis by (simp add: js_split_none str_includes_def)
  next
    case (Some j)
    from last_split_less [OF d Some] have "last (js_split delimiter ?r) \<noteq> ?r" by auto
    with Some l show ?thesis by (simp add: str_includes_def)
  qed
  have 5: "\<not> starts_with target_prefix s \<longrightarrow>
            extract_request env JsonRpcCall ctx
              (JObj [(''method'', JStr ''tools/call''), (''params'', JObj [(''name'', JStr s)])])
              = Inr (Dispatch (JStr s) (JObj []))"
    using ne
    by (simp add: extract_request_def and_startsWith_def call_startsWith_def js_or_def
        bind_def Let_def)
  from 0 1 2 3 4 5 show ?thesis by blast
qed

text \<open>The theorem at \<open>T___kintone-get-apps\<close>, where the delimiter occurs once and
  both entry points continue from \<open>kintone-get-apps\<close>.\<close>

theorem delimiter_steps_agree_iff_witness:
  "index_of delimiter ''T___kintone-get-apps'' = Some 1 \<and>
   gateway_tool (JStr ''T___kintone-get-apps'') = Inr (JStr ''get-apps'') \<and>
   extractToolName (JStr ''T___kintone-get-apps'') = Inr (JStr ''kintone-get-apps'') \<and>
   \<not> str_includes delimiter ''kintone-get-apps''"
proof -
  have a: "index_of delimiter ''T___kintone-get-apps'' = Some 1"
    by (simp add: delimiter_def)
  from delimiter_steps_agree_iff [OF a] a show ?thesis
    by (simp add: delimiter_def family_prefix_def replace_def str_includes_def
        js_split_some js_split_none)
qed

text \<open>Claim C6 as stated fails: on the raw id \<open>A___B___kintone-get-apps\<close> the
  gateway branch of the multi-envelope entry point resolves to \<open>B___get-apps\<close>,
  the three-pattern entry point to \<open>get-apps\<close>; and the JSON-RPC call of
  \<open>T___kintone-get-apps\<close> reaches the \<open>switch\<close> unchanged in the multi-envelope
  entry point, as \<open>get-apps\<close> in the other.\<close>

theorem entry_points_disagree:
  "bind (gateway_tool (JStr ''A___B___kintone-get-apps'')) normalize_tool = Inr (JStr ''B___get-apps'') \<and>
   bind (extractToolName (JStr ''A___B___kintone-get-apps'')) strip_family = Inr (JStr ''get-apps'') \<and>
   resolve1 sample_env plain_context
     (JObj [(''method'', JStr ''tools/call''),
            (''params'', JObj [(''name'', JStr ''T___kintone-get-apps'')])])
     = Inr (Dispatch (JStr ''T___kintone-get-apps'') (JObj [])) \<and>
   resolve2 sample_env plain_context
     (JObj [(''method'', JStr ''tools/call''),
            (''params'', JObj [(''name'', JStr ''T___kintone-get-apps'')])])
     = Inr (Dispatch (JStr ''get-apps'') (JObj []))"
  by code_simp


section \<open>Facts about the handlers\<close>

lemma bind_Inr [simp]: "bind (Inr x) f = f x"
  by (simp add: bind_def)

lemma bind_Inl [simp]: "bind (Inl e) f = Inl e"
  by (simp add: bind_def)

lemma bind_eq_Inr: "bind m f = Inr y \<longleftrightarrow> (\<exists>x. m = Inr x \<and> f x = Inr y)"
  by (cases m) auto

lemma try1_configured:
  "getKintoneConfig env = Inr cfg \<Longrightarrow> createKintoneClient env cfg = Inr client \<Longrightarrow>
   try1 env ctx event =
     bind (resolve1 env ctx event) (\<lambda>x.
       case x of Respond r \<Rightarrow> Inr r
               | Dispatch tool params \<Rightarrow> dispatch1 env ctx event tool params)"
  by (simp add: try1_def)

lemma is_empty_get: "is_empty event \<Longrightarrow> js_get event k = JUndef"
  by (cases event) (auto simp: is_empty_def)

lemma gateway_context_tool: "is_gateway ctx \<Longrightarrow> truthy (context_tool_name ctx)"
  by (cases "js_opt (clientContext ctx) ''custom''")
     (auto simp: is_gateway_def customContext_def context_tool_name_def js_or_def js_opt_def)

lemma classified_http_total:
  assumes "classify ctx event = Inr k" "\<not> is_tools_call event"
  shows "\<exists>b. is_http_shaped ctx event = Inr b"
proof (cases "truthy (context_tool_name ctx) \<or> is_operation event")
  case True
  then show ?thesis by (auto simp: is_http_shaped_def)
next
  case False
  then have g: "\<not> is_gateway ctx" using gateway_context_tool by blast
  show ?thesis
  proof (cases "is_empty event")
    case True
    then show ?thesis
      by (auto simp: is_http_shaped_def is_empty_get and_startsWith_def)
  next
    case e: False
    from assms g e False obtain b where "and_startsWith (js_get event ''name'') target_prefix = Inr b"
      by (auto simp: classify_def bind_eq_Inr split: if_splits)
    then show ?thesis by (auto simp: is_http_shaped_def)
  qed
qed

lemma render1_classified:
  assumes "classify ctx event = Inr k"
  shows "render1 env ctx event rpc st p =
           Inr (if is_tools_call event then rpc
                else if is_http_shaped ctx event = Inr True then http_response1 env st p
                else p)"
proof (cases "is_tools_call event")
  case True
  then show ?thesis by (simp add: render1_def)
next
  case False
  from classified_http_total [OF assms False] obtain b where "is_http_shaped ctx event = Inr b" ..
  with False show ?thesis by (simp add: render1_def)
qed

lemma resolve1_classified: "resolve1 env ctx event = Inr x \<Longrightarrow> \<exists>k. classify ctx event = Inr k"
  by (auto simp: resolve1_def bind_eq_Inr)

lemma sample_env_configured:
  "\<exists>cfg client. getKintoneConfig sample_env = Inr cfg \<and>
     createKintoneClient sample_env cfg = Inr client"
  by (simp add: getKintoneConfig_def createKintoneClient_def sample_env_def env_set_def
      env_val_def opt_set_def)

section \<open>Classification\<close>

text \<open>
  Claim C2. The claim says that classification assigns a kind to every payload and
  never fails. The handler's chain does not: on the payload \<open>{name: 5}\<close> (no client
  context) the test \<open>event.name && event.name.startsWith(...)\<close> calls
  \<open>startsWith\<close> on a number and raises a TypeError, so no kind is assigned; the
  \<open>catch\<close> block repeats the same test for its response, the TypeError leaves
  the handler and the promise is rejected. The sibling payload \<open>{toolName: 5}\<close>
  also fails in the chain, but is answered by the \<open>catch\<close> with the failure object.
\<close>

theorem classification_throws_on_non_string_name:
  "classify plain_context (JObj [(''name'', JNum 5)]) = Inl TypeError \<and>
   handler1 sample_env plain_context (JObj [(''name'', JNum 5)]) = Inl TypeError \<and>
   classify plain_context (JObj [(''toolName'', JNum 5)]) = Inl TypeError \<and>
   handler1 sample_env plain_context (JObj [(''toolName'', JNum 5)])
     = Inr (JObj [(''success'', JBool False),
                  (''error'', JStr (lib_message sample_env TypeError)),
                  (''timestamp'', JStr (clock sample_env))])"
  by code_simp

section \<open>Unsupported tools\<close>

text \<open>
  Claim C4. The claim says that an unsupported tool id is answered in the form of
  the request's envelope and that no exception leaves the handler. A legacy request
  is to be answered as an HTTP response, as the source's own comment on the return
  sites says; the test at these sites looks at \<open>event.name\<close> only. So the request
  \<open>{toolName: "MyKintoneTarget___kintone-update-records"}\<close>, classified as a
  legacy prefixed name, is answered with the bare failure object, where the same
  request under \<open>name\<close> gets status 400. And in the three-pattern entry point a
  gateway invocation of \<open>update-records\<close> with the payload \<open>null\<close> reaches the
  \<open>default\<close> branch, fails on reading \<open>event.method\<close> there and again in the
  \<open>catch\<close>, and the promise is rejected.
\<close>

theorem unsupported_tool_under_legacy_tool_name:
  "classify plain_context
     (JObj [(''toolName'', JStr ''MyKintoneTarget___kintone-update-records'')])
     = Inr (LegacyPrefixedName ToolName) \<and>
   handler1 sample_env plain_context
     (JObj [(''toolName'', JStr ''MyKintoneTarget___kintone-update-records'')])
     = Inr (JObj [(''success'', JBool False),
                  (''error'', JStr (msg_unsupported_tool @ ''update-records''))]) \<and>
   handler1 sample_env plain_context
     (JObj [(''name'', JStr ''MyKintoneTarget___kintone-update-records'')])
     = Inr (JObj [(''statusCode'', JNum 400), (''headers'', cors_headers),
                  (''body'', JStr (json_stringify sample_env
                     (JObj [(''success'', JBool False),
                            (''error'', JStr (msg_unsupported_tool @ ''update-records''))])))]) \<and>
   resolve2 sample_env (gateway_context ''T___kintone-update-records'') JNull
     = Inr (Dispatch (JStr ''update-records'') JNull) \<and>
   handler2 sample_env (gateway_context ''T___kintone-update-records'') JNull = Inl TypeError"
  by code_simp

section \<open>Validation failures\<close>

lemma catch1_classified:
  assumes "classify ctx event = Inr k"
  shows "catch1 env ctx event e =
     Inr (if is_tools_call event
          then JObj [(''jsonrpc'', JStr ''2.0''), (''id'', rpc_id event),
                     (''error'', JObj [(''code'', JNum (- 32603)),
                                      (''message'', JStr (message_or env e msg_internal_server_error)),
                                      (''data'', JObj [(''timestamp'', JStr (clock env))])])]
          else if is_http_shaped ctx event = Inr True
          then JObj [(''statusCode'', JNum 500), (''headers'', cors_headers),
                     (''body'', JStr (json_stringify env
                        (JObj [(''success'', JBool False),
                               (''error'', JStr (message_or env e msg_internal_server_error)),
                               (''timestamp'', JStr (clock env))])))]
          else JObj [(''success'', JBool False),
                     (''error'', JStr (message_or env e msg_internal_server_error)),
                     (''timestamp'', JStr (clock env))])"
  by (simp add: catch1_def Let_def render1_classified [OF assms] rpc_error_def http_response1_def)

lemma run_tool_invalid:
  "tool_schema t = Some sch \<Longrightarrow> zod_parse sch params = Inl ZodError \<Longrightarrow>
   run_tool env (JStr t) params = Inl ZodError"
  by (auto simp: tool_schema_def run_tool_def split: if_splits)

text \<open>A required string field that is missing, or holds something else than a
  string, makes \<open>parse\<close> throw.\<close>

lemma zod_parse_rejects:
  assumes "(k, ZString) \<in> set shape" and "\<forall>s. js_get params k \<noteq> JStr s"
  shows "zod_parse shape params = Inl ZodError"
proof (cases params)
  case (JObj kvs)
  from assms(2) have "\<not> accepts ZString (js_get params k)"
    by (cases "js_get params k") auto
  with assms(1) have "\<not> list_all (\<lambda>kt. accepts (snd kt) (js_get params (fst kt))) shape"
    by (force simp: list_all_iff)
  with JObj show ?thesis by (simp add: zod_parse_def)
qed (simp_all add: zod_parse_def)

text \<open>
  Claim C1, as the code has it. A request that reaches the \<open>switch\<close> (the
  configuration is present and the client is constructed) with a known tool name
  and parameters that the tool's schema rejects (a required field missing, a field
  of the wrong primitive type) makes \<open>parse\<close> throw inside the \<open>try\<close>; the one
  \<open>catch\<close> renders it as it renders every internal error: the JSON-RPC error
  with code -32603, the HTTP response with status 500, or the bare failure object
  with a timestamp. The code has no bad-request form (400 or -32602) for it.
\<close>

theorem validation_failure_is_internal_error:
  assumes cfg: "getKintoneConfig env = Inr cfg"
      and cl: "createKintoneClient env cfg = Inr client"
      and nn: "\<not> nullish event"
      and sch: "tool_schema t = Some sch"
      and bad: "zod_parse sch params = Inl ZodError"
      and r: "resolve1 env ctx event = Inr (Dispatch (JStr t) params)"
  shows "handler1 env ctx event =
     Inr (if is_tools_call event
          then JObj [(''jsonrpc'', JStr ''2.0''), (''id'', rpc_id event),
                     (''error'', JObj [(''code'', JNum (- 32603)),
                                      (''message'', JStr (lib_message env ZodError)),
                                      (''data'', JObj [(''timestamp'', JStr (clock env))])])]
          else if is_http_shaped ctx event = Inr True
          then JObj [(''statusCode'', JNum 500), (''headers'', cors_headers),
                     (''body'', JStr (json_stringify env
                        (JObj [(''success'', JBool False),
                               (''error'', JStr (lib_message env ZodError)),
                               (''timestamp'', JStr (clock env))])))]
          else JObj [(''success'', JBool False),
                     (''error'', JStr (lib_message env ZodError)),
                     (''timestamp'', JStr (clock env))])"
proof -
  from resolve1_classified [OF r] obtain k where k: "classify ctx event = Inr k" ..
  have "try1 env ctx event = Inl ZodError"
    by (simp add: try1_configured [OF cfg cl] r dispatch1_def run_tool_invalid [OF sch bad])
  with nn show ?thesis
    by (simp add: handler1_def catch1_classified [OF k] message_or_def)
qed

text \<open>The theorem at a JSON-RPC call of \<open>get-app\<close> whose \<open>id\<close> is a number.\<close>

theorem validation_failure_is_internal_error_witness:
  "tool_schema ''get-app'' = Some getAppSchema \<and>
   zod_parse getAppSchema (JObj [(''id'', JNum 3)]) = Inl ZodError \<and>
   handler1 sample_env plain_context
     (JObj [(''method'', JStr ''tools/call''),
            (''params'', JObj [(''name'', JStr ''MyKintoneTarget___kintone-get-app''),
                               (''arguments'', JObj [(''id'', JNum 3)])])])
     = Inr (JObj [(''jsonrpc'', JStr ''2.0''), (''id'', JNum 1),
                  (''error'', JObj [(''code'', JNum (- 32603)),
                                   (''message'', JStr (lib_message sample_env ZodError)),
                                   (''data'', JObj [(''timestamp'', JStr (clock sample_env))])])])"
proof -
  let ?ev = "JObj [(''method'', JStr ''tools/call''),
            (''params'', JObj [(''name'', JStr ''MyKintoneTarget___kintone-get-app''),
                               (''arguments'', JObj [(''id'', JNum 3)])])]"
  from sample_env_configured obtain cfg client
    where cfg: "getKintoneConfig sample_env = Inr cfg"
      and cl: "createKintoneClient sample_env cfg = Inr client" by blast
  have s: "tool_schema ''get-app'' = Some getAppSchema"
    by (simp add: tool_schema_def)
  have b: "zod_parse getAppSchema (JObj [(''id'', JNum 3)]) = Inl ZodError"
    by (simp add: zod_parse_def getAppSchema_def)
  have r: "resolve1 sample_env plain_context ?ev = Inr (Dispatch (JStr ''get-app'') (JObj [(''id'', JNum 3)]))"
    by code_simp
  have n: "\<not> nullish ?ev" by simp
  from validation_failure_is_internal_error [OF cfg cl n s b r] s b show ?thesis
    by (simp add: is_tools_call_def rpc_id_def js_or_def)
qed

text \<open>Claim C1 as stated fails: the gateway invocation of \<open>get-records\<close> with the
  payload \<open>{}\<close> (the required \<open>app\<close> is missing) is answered with status 500,
  not 400.\<close>

theorem missing_app_gives_status_500:
  "handler1 sample_env (gateway_context ''T___kintone-get-records'') (JObj [])
     = Inr (JObj [(''statusCode'', JNum 500), (''headers'', cors_headers),
                  (''body'', JStr (json_stringify sample_env
                     (JObj [(''success'', JBool False),
                            (''error'', JStr (lib_message sample_env ZodError)),
                            (''timestamp'', JStr (clock sample_env))])))])"
  by code_simp

section \<open>Business failures\<close>

text \<open>
  Claim C5. The claim says that a business failure is answered with status 200 for
  the HTTP-shaped envelopes, of which the legacy prefixed names are. With a client
  whose \<open>getApp\<close> fails with a network error, the legacy request of \<open>get-app\<close>
  under \<open>toolName\<close> runs the tool and is answered with the bare failure object,
  where the same request under \<open>name\<close> gets status 200 with the failure as its
  body: the test at the return sites looks at \<open>event.name\<close> only, against the
  source's own comment on these sites. (The JSON-RPC call of the same tool is
  answered as the claim says, with a \<open>result\<close> member and \<open>isError: true\<close>.)
\<close>

theorem business_failure_under_legacy_tool_name:
  "classify plain_context
     (JObj [(''toolName'', JStr ''MyKintoneTarget___kintone-get-app''),
            (''arguments'', JObj [(''id'', JStr ''1'')])])
     = Inr (LegacyPrefixedName ToolName) \<and>
   run_tool sample_env (JStr ''get-app'') (JObj [(''id'', JStr ''1'')])
     = Inr (Some (JObj [(''success'', JBool False), (''error'', JStr ''network error'')])) \<and>
   handler1 sample_env plain_context
     (JObj [(''toolName'', JStr ''MyKintoneTarget___kintone-get-app''),
            (''arguments'', JObj [(''id'', JStr ''1'')])])
     = Inr (JObj [(''success'', JBool False), (''error'', JStr ''network error'')]) \<and>
   handler1 sample_env plain_context
     (JObj [(''name'', JStr ''MyKintoneTarget___kintone-get-app''),
            (''arguments'', JObj [(''id'', JStr ''1'')])])
     = Inr (JObj [(''statusCode'', JNum 200), (''headers'', cors_headers),
                  (''body'', JStr (json_stringify sample_env
                     (JObj [(''success'', JBool False), (''error'', JStr ''network error'')])))]) \<and>
   handler1 sample_env plain_context
     (JObj [(''method'', JStr ''tools/call''), (''id'', JNum 7),
            (''params'', JObj [(''name'', JStr ''MyKintoneTarget___kintone-get-app''),
                               (''arguments'', JObj [(''id'', JStr ''1'')])])])
     = Inr (JObj [(''jsonrpc'', JStr ''2.0''), (''id'', JNum 7),
                  (''result'',
                     JObj [(''isError'', JBool True),
                           (''content'',
                              JArr [JObj [(''type'', JStr ''text''),
                                          (''text'', JStr (json_stringify sample_env
                                             (JObj [(''success'', JBool False),
                                                    (''error'', JStr ''network error'')])))]])])])"
  by code_simp

section \<open>The empty payload\<close>

lemma log_request_details_empty: "is_empty event \<Longrightarrow> log_request_details event = Inr ()"
  by (simp add: log_request_details_def is_empty_get and_startsWith_def)

text \<open>
  Claim C3, as the code has it. In the multi-envelope entry point, for every payload
  without own keys (and not \<open>null\<close>), a context that carries no gateway tool name
  (under \<open>custom\<close> or \<open>Custom\<close>), a present configuration and a client that is
  constructed: the request is classified as \<open>EmptyPayload\<close>, resolves to
  \<open>get-apps\<close> with the parameters \<open>{}\<close>, and the handler returns the result of
  the tool as it is; when the client answers, that is
  \<open>{success: true, data: {apps: ...}}\<close>.
\<close>

theorem empty_payload_defaults_to_get_apps:
  assumes cfg: "getKintoneConfig env = Inr cfg"
      and cl: "createKintoneClient env cfg = Inr client"
      and nn: "\<not> nullish event"
      and empty: "is_empty event"
      and ctx: "\<not> truthy (context_tool_name ctx)"
  shows "classify ctx event = Inr EmptyPayload \<and>
         resolve1 env ctx event = Inr (Dispatch (JStr ''get-apps'') (JObj [])) \<and>
         handler1 env ctx event = Inr (getApps env) \<and>
         (\<forall>response. kintone env ''app.getApps'' (JObj []) = Inr response \<and> \<not> nullish response \<longrightarrow>
            getApps env = JObj [(''success'', JBool True),
                                (''data'', JObj [(''apps'', js_get response ''apps'')])])"
proof -
  from ctx gateway_context_tool have g: "\<not> is_gateway ctx" by blast
  have c: "classify ctx event = Inr EmptyPayload"
    using g empty by (simp add: classify_def)
  have n: "normalize_tool (JStr ''get-apps'') = Inr (JStr ''get-apps'')"
    by (simp add: normalize_tool_def strip_family_def and_startsWith_def call_startsWith_def
        family_prefix_def apply_mapping_def table_lookup_def toolNameMapping_def)
  have r: "resolve1 env ctx event = Inr (Dispatch (JStr ''get-apps'') (JObj []))"
    by (simp add: resolve1_def c extract_request_def log_request_details_empty [OF empty] n)
  have m: "\<not> is_tools_call event"
    using empty by (simp add: is_tools_call_def is_empty_get)
  have h: "is_http_shaped ctx event = Inr False"
    using ctx empty
    by (simp add: is_http_shaped_def is_operation_def is_empty_get and_startsWith_def)
  have "try1 env ctx event = tool_result1 env ctx event (getApps env)"
    by (simp add: try1_configured [OF cfg cl] r dispatch1_def run_tool_def)
  with nn m h have 3: "handler1 env ctx event = Inr (getApps env)"
    by (simp add: handler1_def tool_result1_def render1_def)
  have 4: "\<forall>response. kintone env ''app.getApps'' (JObj []) = Inr response \<and> \<not> nullish response \<longrightarrow>
            getApps env = JObj [(''success'', JBool True),
                                (''data'', JObj [(''apps'', js_get response ''apps'')])]"
    by (simp add: getApps_def)
  from c r 3 4 show ?thesis by blast
qed

text \<open>The theorem at the payload \<open>{}\<close> without a client context.\<close>

theorem empty_payload_defaults_to_get_apps_witness:
  "is_empty (JObj []) \<and> \<not> truthy (context_tool_name plain_context) \<and>
   classify plain_context (JObj []) = Inr EmptyPayload \<and>
   handler1 sample_env plain_context (JObj [])
     = Inr (JObj [(''success'', JBool True), (''data'', JObj [(''apps'', JArr [])])])"
proof -
  from sample_env_configured obtain cfg client
    where cfg: "getKintoneConfig sample_env = Inr cfg"
      and cl: "createKintoneClient sample_env cfg = Inr client" by blast
  have e: "is_empty (JObj [])" by (simp add: is_empty_def)
  have c: "\<not> truthy (context_tool_name plain_context)"
    by (simp add: context_tool_name_def plain_context_def js_opt_def js_or_def)
  have n: "\<not> nullish (JObj [])" by simp
  have k: "kintone sample_env ''app.getApps'' (JObj []) = Inr (JObj [(''apps'', JArr [])])"
    by (simp add: sample_env_def)
  from empty_payload_defaults_to_get_apps [OF cfg cl n e c] k e c show ?thesis
    by auto
qed

text \<open>Claim C3 as stated fails for the three-pattern entry point, which has no
  branch for the empty payload: \<open>{}\<close> is a direct invocation without a tool name
  and is answered with the bare failure "no tool name is given".\<close>

theorem empty_payload_in_three_pattern_entry_point:
  "handler2 sample_env plain_context (JObj [])
     = Inr (JObj [(''success'', JBool False), (''error'', JStr msg_tool_not_specified)])"
  by code_simp

section \<open>The forms of the responses\<close>

lemma tools_outcome:
  "is_outcome (getRecords env p)" "is_outcome (getApp env p)" "is_outcome (addRecords env p)"
  "is_outcome (getApps env)" "is_outcome (getFormFields env p)"
  by (simp_all add: getRecords_def getApp_def addRecords_def getApps_def getFormFields_def
      is_outcome_def tool_failure_def split: sum.splits)

lemma run_tool_outcome: "run_tool env tool params = Inr (Some result) \<Longrightarrow> is_outcome result"
  by (auto simp: run_tool_def bind_eq_Inr tools_outcome split: if_splits)

lemma render1_forms:
  "render1 env ctx event rpc st p = Inr r \<Longrightarrow>
   (is_tools_call event \<and> r = rpc) \<or> r = http_response1 env st p \<or> r = p"
  by (auto simp: render1_def bind_eq_Inr split: if_splits)

lemma render2_forms:
  "render2 env ctx event rpc st p = Inr r \<Longrightarrow>
   (is_tools_call event \<and> r = rpc) \<or> r = http_response2 env st p \<or> r = p"
  by (auto simp: render2_def bind_eq_Inr is_tools_call_def js_prop_def split: if_splits)





lemma extract_request_respond:
  "extract_request env kind ctx event = Inr (Respond r) \<Longrightarrow>
   r = http_response1 env 400
         (JObj [(''success'', JBool False), (''error'', JStr msg_body_invalid)])"
  by (cases kind)
     (auto simp: extract_request_def bind_eq_Inr Let_def
        split: if_splits option.splits legacy_field.splits)








lemma extract_request2_dispatch: "extract_request2 ctx event = Inr x \<Longrightarrow> \<exists>tool params. x = Dispatch tool params"
  by (auto simp: extract_request2_def bind_eq_Inr split: if_splits)




section \<open>JSON-RPC ids and HTTP envelopes\<close>




subsection \<open>Responses with a status code\<close>

lemma render1_http:
  assumes "render1 env ctx event rpc st p = Inr r"
      and "js_get r ''statusCode'' \<noteq> JUndef"
      and "js_get rpc ''statusCode'' = JUndef" and "js_get p ''statusCode'' = JUndef"
  shows "r = http_response1 env st p"
  using render1_forms [OF assms(1)] assms(2-4) by auto

lemma render2_http:
  assumes "render2 env ctx event rpc st p = Inr r"
      and "js_get r ''statusCode'' \<noteq> JUndef"
      and "js_get rpc ''statusCode'' = JUndef" and "js_get p ''statusCode'' = JUndef"
  shows "r = http_response2 env st p"
  using render2_forms [OF assms(1)] assms(2-4) by auto

lemma rpc_no_status:
  "js_get (rpc_error event code message data) ''statusCode'' = JUndef"
  "js_get (rpc_result env event result) ''statusCode'' = JUndef"
  by (simp_all add: rpc_error_def rpc_result_def)

lemma resolve1_respond_http:
  assumes "resolve1 env ctx event = Inr (Respond r)" and "js_get r ''statusCode'' \<noteq> JUndef"
  shows "r = http_response1 env 400
               (JObj [(''success'', JBool False), (''error'', JStr msg_body_invalid)]) \<or>
         r = http_response1 env 400
               (JObj [(''success'', JBool False), (''error'', JStr msg_tool_not_specified),
                      (''debug'', debug_info ctx event)])"
proof -
  from assms(1) obtain kind x where x: "extract_request env kind ctx event = Inr x"
    and rest: "(case x of Respond r' \<Rightarrow> Inr (Respond r')
                | Dispatch tool0 params \<Rightarrow>
                    bind (log_request_details event) (\<lambda>u.
                    bind (normalize_tool tool0) (\<lambda>tool.
                      if \<not> truthy tool
                      then bind (missing_tool1 env ctx event) (\<lambda>r. Inr (Respond r))
                      else Inr (Dispatch tool params)))) = Inr (Respond r)"
    by (auto simp: resolve1_def bind_eq_Inr)
  show ?thesis
  proof (cases x)
    case (Respond r')
    with rest have "r' = r" by simp
    with Respond x show ?thesis using extract_request_respond by blast
  next
    case (Dispatch tool0 params)
    with rest have "missing_tool1 env ctx event = Inr r"
      by (auto simp: bind_eq_Inr split: if_splits)
    then have "r = http_response1 env 400
               (JObj [(''success'', JBool False), (''error'', JStr msg_tool_not_specified),
                      (''debug'', debug_info ctx event)])"
      unfolding missing_tool1_def
      by (rule render1_http) (simp_all add: assms(2) rpc_no_status)
    then show ?thesis ..
  qed
qed

lemma resolve2_respond_http:
  assumes "resolve2 env ctx event = Inr (Respond r)" and "js_get r ''statusCode'' \<noteq> JUndef"
  shows "r = http_response2 env 400
               (JObj [(''success'', JBool False), (''error'', JStr msg_tool_not_specified)])"
proof -
  from assms(1) obtain x where x: "extract_request2 ctx event = Inr x"
    and rest: "(case x of Respond r' \<Rightarrow> Inr (Respond r')
                | Dispatch tool0 params \<Rightarrow>
                    bind (strip_family tool0) (\<lambda>toolName.
                      if \<not> truthy toolName
                      then bind (missing_tool2 env ctx event) (\<lambda>r. Inr (Respond r))
                      else Inr (Dispatch toolName params))) = Inr (Respond r)"
    by (auto simp: resolve2_def bind_eq_Inr)
  from extract_request2_dispatch [OF x] obtain tool0 params where "x = Dispatch tool0 params"
    by blast
  with rest have "missing_tool2 env ctx event = Inr r"
    by (auto simp: bind_eq_Inr split: if_splits)
  then show ?thesis
    unfolding missing_tool2_def
    by (rule render2_http) (simp_all add: assms(2) rpc_no_status)
qed

lemma outcome_no_status: "is_outcome p \<Longrightarrow> js_get p ''statusCode'' = JUndef"
  by (simp add: is_outcome_def)

lemma dispatch1_http:
  assumes "dispatch1 env ctx event tool params = Inr r" and "js_get r ''statusCode'' \<noteq> JUndef"
  shows "(\<exists>result. run_tool env tool params = Inr (Some result) \<and> r = http_response1 env 200 result) \<or>
         (run_tool env tool params = Inr None \<and>
          r = http_response1 env 400
                (JObj [(''success'', JBool False),
                       (''error'', JStr (msg_unsupported_tool @ js_to_string tool))]))"
proof -
  from assms(1) obtain res where run: "run_tool env tool params = Inr res"
    and out: "(case res of Some result \<Rightarrow> tool_result1 env ctx event result
               | None \<Rightarrow> unsupported_tool1 env ctx event tool) = Inr r"
    by (auto simp: dispatch1_def bind_eq_Inr)
  show ?thesis
  proof (cases res)
    case None
    with out have "unsupported_tool1 env ctx event tool = Inr r" by simp
    then have "r = http_response1 env 400
                (JObj [(''success'', JBool False),
                       (''error'', JStr (msg_unsupported_tool @ js_to_string tool))])"
      unfolding unsupported_tool1_def
      by (rule render1_http) (simp_all add: assms(2) rpc_no_status)
    with run None show ?thesis by simp
  next
    case (Some result)
    with run have o: "is_outcome result" by (simp add: run_tool_outcome)
    from Some out have "tool_result1 env ctx event result = Inr r" by simp
    then have "r = http_response1 env 200 result"
      unfolding tool_result1_def
      by (rule render1_http) (simp_all add: assms(2) rpc_no_status outcome_no_status [OF o])
    with run Some show ?thesis by simp
  qed
qed

lemma dispatch2_http:
  assumes "dispatch2 env ctx event tool params = Inr r" and "js_get r ''statusCode'' \<noteq> JUndef"
  shows "(\<exists>result. run_tool env tool params = Inr (Some result) \<and> r = http_response2 env 200 result) \<or>
         (run_tool env tool params = Inr None \<and>
          r = http_response2 env 400
                (JObj [(''success'', JBool False),
                       (''error'', JStr (msg_unsupported_tool @ js_to_string tool))]))"
proof -
  from assms(1) obtain res where run: "run_tool env tool params = Inr res"
    and out: "(case res of Some result \<Rightarrow> tool_result2 env ctx event result
               | None \<Rightarrow> unsupported_tool2 env ctx event tool) = Inr r"
    by (auto simp: dispatch2_def bind_eq_Inr)
  show ?thesis
  proof (cases res)
    case None
    with out have "unsupported_tool2 env ctx event tool = Inr r" by simp
    then have "r = http_response2 env 400
                (JObj [(''success'', JBool False),
                       (''error'', JStr (msg_unsupported_tool @ js_to_string tool))])"
      unfolding unsupported_tool2_def
      by (rule render2_http) (simp_all add: assms(2) rpc_no_status)
    with run None show ?thesis by simp
  next
    case (Some result)
    with run have o: "is_outcome result" by (simp add: run_tool_outcome)
    from Some out have "tool_result2 env ctx event result = Inr r" by simp
    then have "r = http_response2 env 200 result"
      unfolding tool_result2_def
      by (rule render2_http) (simp_all add: assms(2) rpc_no_status outcome_no_status [OF o])
    with run Some show ?thesis by simp
  qed
qed

lemma catch1_http:
  assumes "catch1 env ctx event e = Inr r" and "js_get r ''statusCode'' \<noteq> JUndef"
  shows "r = http_response1 env 500
               (JObj [(''success'', JBool False),
                      (''error'', JStr (message_or env e msg_internal_server_error)),
                      (''timestamp'', JStr (clock env))])"
  using assms(1) unfolding catch1_def Let_def
  by (rule render1_http) (simp_all add: assms(2) rpc_no_status)

lemma catch2_http:
  assumes "catch2 env ctx event e = Inr r" and "js_get r ''statusCode'' \<noteq> JUndef"
  shows "r = http_response2 env 500
               (JObj [(''success'', JBool False),
                      (''error'', JStr (message_or env e msg_internal_server_error)),
                      (''timestamp'', JStr (clock env))])"
  using assms(1) unfolding catch2_def Let_def
  by (rule render2_http) (simp_all add: assms(2) rpc_no_status)

text \<open>
  Claim C9. Every response that either entry point returns with a \<open>statusCode\<close>
  member, on any path, the \<open>catch\<close> included, has \<open>headers\<close> with
  \<open>Content-Type: application/json\<close>, and its \<open>body\<close> is the serialisation of
  the object of its return site: with status 200 the result of the tool that the request
  was dispatched to, with status 400 the failure object of an unsupported tool, of an
  invalid body or of a missing tool name, and with status 500 the failure object that the
  \<open>catch\<close> builds from the exception of the \<open>try\<close> block.
\<close>

theorem http_responses_are_json:
  assumes sc: "js_get r ''statusCode'' \<noteq> JUndef"
  shows "(handler1 env ctx event = Inr r \<longrightarrow>
            js_get (js_get r ''headers'') ''Content-Type'' = JStr ''application/json'' \<and>
            (\<exists>st p. r = JObj [(''statusCode'', JNum st), (''headers'', cors_headers),
                               (''body'', JStr (json_stringify env p))] \<and>
                    is_outcome p \<and>
                    ((st = 200 \<and>
                      (\<exists>tool params. resolve1 env ctx event = Inr (Dispatch tool params) \<and>
                         run_tool env tool params = Inr (Some p))) \<or>
                     (st = 400 \<and>
                      (\<exists>tool params. resolve1 env ctx event = Inr (Dispatch tool params) \<and>
                         run_tool env tool params = Inr None \<and>
                         p = JObj [(''success'', JBool False),
                                   (''error'', JStr (msg_unsupported_tool @ js_to_string tool))])) \<or>
                     (st = 400 \<and> resolve1 env ctx event = Inr (Respond r) \<and>
                      (p = JObj [(''success'', JBool False), (''error'', JStr msg_body_invalid)] \<or>
                       p = JObj [(''success'', JBool False), (''error'', JStr msg_tool_not_specified),
                                 (''debug'', debug_info ctx event)])) \<or>
                     (st = 500 \<and>
                      (\<exists>e. try1 env ctx event = Inl e \<and>
                         p = JObj [(''success'', JBool False),
                                   (''error'', JStr (message_or env e msg_internal_server_error)),
                                   (''timestamp'', JStr (clock env))]))))) \<and>
         (handler2 env ctx event = Inr r \<longrightarrow>
            js_get (js_get r ''headers'') ''Content-Type'' = JStr ''application/json'' \<and>
            (\<exists>st p. r = JObj [(''statusCode'', JNum st), (''headers'', json_headers),
                               (''body'', JStr (json_stringify env p))] \<and>
                    is_outcome p \<and>
                    ((st = 200 \<and>
                      (\<exists>tool params. resolve2 env ctx event = Inr (Dispatch tool params) \<and>
                         run_tool env tool params = Inr (Some p))) \<or>
                     (st = 400 \<and>
                      (\<exists>tool params. resolve2 env ctx event = Inr (Dispatch tool params) \<and>
                         run_tool env tool params = Inr None \<and>
                         p = JObj [(''success'', JBool False),
                                   (''error'', JStr (msg_unsupported_tool @ js_to_string tool))])) \<or>
                     (st = 400 \<and> resolve2 env ctx event = Inr (Respond r) \<and>
                      p = JObj [(''success'', JBool False), (''error'', JStr msg_tool_not_specified)]) \<or>
                     (st = 500 \<and>
                      (\<exists>e. try2 env ctx event = Inl e \<and>
                         p = JObj [(''success'', JBool False),
                                   (''error'', JStr (message_or env e msg_internal_server_error)),
                                   (''timestamp'', JStr (clock env))])))))"
proof (intro conjI impI)
  assume h: "handler1 env ctx event = Inr r"
  let ?P = "\<lambda>st p.
      (st = 200 \<and>
        (\<exists>tool params. resolve1 env ctx event = Inr (Dispatch tool params) \<and>
           run_tool env tool params = Inr (Some p))) \<or>
      (st = 400 \<and>
        (\<exists>tool params. resolve1 env ctx event = Inr (Dispatch tool params) \<and>
           run_tool env tool params = Inr None \<and>
           p = JObj [(''success'', JBool False),
                     (''error'', JStr (msg_unsupported_tool @ js_to_string tool))])) \<or>
      (st = 400 \<and> resolve1 env ctx event = Inr (Respond r) \<and>
        (p = JObj [(''success'', JBool False), (''error'', JStr msg_body_invalid)] \<or>
         p = JObj [(''success'', JBool False), (''error'', JStr msg_tool_not_specified),
                   (''debug'', debug_info ctx event)])) \<or>
      (st = 500 \<and>
        (\<exists>e. try1 env ctx event = Inl e \<and>
           p = JObj [(''success'', JBool False),
                     (''error'', JStr (message_or env e msg_internal_server_error)),
                     (''timestamp'', JStr (clock env))]))"
  have main: "\<exists>st p. r = http_response1 env st p \<and> is_outcome p \<and> ?P st p"
  proof (cases "try1 env ctx event")
    case (Inl e)
    with h have "catch1 env ctx event e = Inr r"
      by (simp add: handler1_def split: if_splits)
    from catch1_http [OF this sc]
    have r: "r = http_response1 env 500
               (JObj [(''success'', JBool False),
                      (''error'', JStr (message_or env e msg_internal_server_error)),
                      (''timestamp'', JStr (clock env))])" .
    have o: "is_outcome (JObj [(''success'', JBool False),
                      (''error'', JStr (message_or env e msg_internal_server_error)),
                      (''timestamp'', JStr (clock env))])"
      by (simp add: is_outcome_def)
    have "?P 500 (JObj [(''success'', JBool False),
                      (''error'', JStr (message_or env e msg_internal_server_error)),
                      (''timestamp'', JStr (clock env))])"
      using Inl by simp
    with r o show ?thesis by blast
  next
    case (Inr r')
    with h have rr: "r' = r" by (simp add: handler1_def split: if_splits)
    from Inr rr obtain x where x: "resolve1 env ctx event = Inr x"
      and rest: "(case x of Respond r' \<Rightarrow> Inr r'
                  | Dispatch tool params \<Rightarrow> dispatch1 env ctx event tool params) = Inr r"
      by (auto simp: try1_def bind_eq_Inr)
    show ?thesis
    proof (cases x)
      case (Respond y)
      with rest have "y = r" by simp
      with Respond x have xr: "resolve1 env ctx event = Inr (Respond r)" by simp
      from resolve1_respond_http [OF xr sc] show ?thesis
      proof
        assume r: "r = http_response1 env 400
               (JObj [(''success'', JBool False), (''error'', JStr msg_body_invalid)])"
        have o: "is_outcome (JObj [(''success'', JBool False), (''error'', JStr msg_body_invalid)])"
          by (simp add: is_outcome_def)
        have "?P 400 (JObj [(''success'', JBool False), (''error'', JStr msg_body_invalid)])"
          using xr by simp
        with r o show ?thesis by blast
      next
        assume r: "r = http_response1 env 400
               (JObj [(''success'', JBool False), (''error'', JStr msg_tool_not_specified),
                      (''debug'', debug_info ctx event)])"
        have o: "is_outcome (JObj [(''success'', JBool False), (''error'', JStr msg_tool_not_specified),
                      (''debug'', debug_info ctx event)])"
          by (simp add: is_outcome_def)
        have "?P 400 (JObj [(''success'', JBool False), (''error'', JStr msg_tool_not_specified),
                      (''debug'', debug_info ctx event)])"
          using xr by simp
        with r o show ?thesis by blast
      qed
    next
      case (Dispatch tool params)
      with rest have d: "dispatch1 env ctx event tool params = Inr r" by simp
      from dispatch1_http [OF d sc] show ?thesis
      proof
        assume "\<exists>result. run_tool env tool params = Inr (Some result) \<and> r = http_response1 env 200 result"
        then obtain result where run: "run_tool env tool params = Inr (Some result)"
          and r: "r = http_response1 env 200 result" by blast
        from run have o: "is_outcome result" by (rule run_tool_outcome)
        from run x Dispatch have "?P 200 result" by simp
        with r o show ?thesis by blast
      next
        assume a: "run_tool env tool params = Inr None \<and>
          r = http_response1 env 400
                (JObj [(''success'', JBool False),
                       (''error'', JStr (msg_unsupported_tool @ js_to_string tool))])"
        have o: "is_outcome (JObj [(''success'', JBool False),
                       (''error'', JStr (msg_unsupported_tool @ js_to_string tool))])"
          by (simp add: is_outcome_def)
        from a x Dispatch
        have "?P 400 (JObj [(''success'', JBool False),
                       (''error'', JStr (msg_unsupported_tool @ js_to_string tool))])"
          by simp
        with a o show ?thesis by blast
      qed
    qed
  qed
  then obtain st p where r: "r = http_response1 env st p" and o: "is_outcome p" and P: "?P st p"
    by blast
  from r show "js_get (js_get r ''headers'') ''Content-Type'' = JStr ''application/json''"
    by (simp add: http_response1_def cors_headers_def)
  from r have "r = JObj [(''statusCode'', JNum st), (''headers'', cors_headers),
                         (''body'', JStr (json_stringify env p))]"
    by (simp add: http_response1_def)
  with o P show "\<exists>st p. r = JObj [(''statusCode'', JNum st), (''headers'', cors_headers),
                               (''body'', JStr (json_stringify env p))] \<and>
                    is_outcome p \<and> ?P st p"
    by blast
next
  assume h: "handler2 env ctx event = Inr r"
  let ?P = "\<lambda>st p.
      (st = 200 \<and>
        (\<exists>tool params. resolve2 env ctx event = Inr (Dispatch tool params) \<and>
           run_tool env tool params = Inr (Some p))) \<or>
      (st = 400 \<and>
        (\<exists>tool params. resolve2 env ctx event = Inr (Dispatch tool params) \<and>
           run_tool env tool params = Inr None \<and>
           p = JObj [(''success'', JBool False),
                     (''error'', JStr (msg_unsupported_tool @ js_to_string tool))])) \<or>
      (st = 400 \<and> resolve2 env ctx event = Inr (Respond r) \<and>
        p = JObj [(''success'', JBool False), (''error'', JStr msg_tool_not_specified)]) \<or>
      (st = 500 \<and>
        (\<exists>e. try2 env ctx event = Inl e \<and>
           p = JObj [(''success'', JBool False),
                     (''error'', JStr (message_or env e msg_internal_server_error)),
                     (''timestamp'', JStr (clock env))]))"
  have main: "\<exists>st p. r = http_response2 env st p \<and> is_outcome p \<and> ?P st p"
  proof (cases "try2 env ctx event")
    case (Inl e)
    with h have "catch2 env ctx event e = Inr r"
      by (simp add: handler2_def)
    from catch2_http [OF this sc]
    have r: "r = http_response2 env 500
               (JObj [(''success'', JBool False),
                      (''error'', JStr (message_or env e msg_internal_server_error)),
                      (''timestamp'', JStr (clock env))])" .
    have o: "is_outcome (JObj [(''success'', JBool False),
                      (''error'', JStr (message_or env e msg_internal_server_error)),
                      (''timestamp'', JStr (clock env))])"
      by (simp add: is_outcome_def)
    have "?P 500 (JObj [(''success'', JBool False),
                      (''error'', JStr (message_or env e msg_internal_server_error)),
                      (''timestamp'', JStr (clock env))])"
      using Inl by simp
    with r o show ?thesis by blast
  next
    case (Inr r')
    with h have rr: "r' = r" by (simp add: handler2_def)
    from Inr rr obtain x where x: "resolve2 env ctx event = Inr x"
      and rest: "(case x of Respond r' \<Rightarrow> Inr r'
                  | Dispatch tool params \<Rightarrow> dispatch2 env ctx event tool params) = Inr r"
      by (auto simp: try2_def bind_eq_Inr)
    show ?thesis
    proof (cases x)
      case (Respond y)
      with rest have "y = r" by simp
      with Respond x have xr: "resolve2 env ctx event = Inr (Respond r)" by simp
      from resolve2_respond_http [OF xr sc]
      have r: "r = http_response2 env 400
               (JObj [(''success'', JBool False), (''error'', JStr msg_tool_not_specified)])" .
      have o: "is_outcome (JObj [(''success'', JBool False), (''error'', JStr msg_tool_not_specified)])"
        by (simp add: is_outcome_def)
      have "?P 400 (JObj [(''success'', JBool False), (''error'', JStr msg_tool_not_specified)])"
        using xr by simp
      with r o show ?thesis by blast
    next
      case (Dispatch tool params)
      with rest have d: "dispatch2 env ctx event tool params = Inr r" by simp
      from dispatch2_http [OF d sc] show ?thesis
      proof
        assume "\<exists>result. run_tool env tool params = Inr (Some result) \<and> r = http_response2 env 200 result"
        then obtain result where run: "run_tool env tool params = Inr (Some result)"
          and r: "r = http_response2 env 200 result" by blast
        from run have o: "is_outcome result" by (rule run_tool_outcome)
        from run x Dispatch have "?P 200 result" by simp
        with r o show ?thesis by blast
      next
        assume a: "run_tool env tool params = Inr None \<and>
          r = http_response2 env 400
                (JObj [(''success'', JBool False),
                       (''error'', JStr (msg_unsupported_tool @ js_to_string tool))])"
        have o: "is_outcome (JObj [(''success'', JBool False),
                       (''error'', JStr (msg_unsupported_tool @ js_to_string tool))])"
          by (simp add: is_outcome_def)
        from a x Dispatch
        have "?P 400 (JObj [(''success'', JBool False),
                       (''error'', JStr (msg_unsupported_tool @ js_to_string tool))])"
          by simp
        with a o show ?thesis by blast
      qed
    qed
  qed
  then obtain st p where r: "r = http_response2 env st p" and o: "is_outcome p" and P: "?P st p"
    by blast
  from r show "js_get (js_get r ''headers'') ''Content-Type'' = JStr ''application/json''"
    by (simp add: http_response2_def json_headers_def)
  from r have "r = JObj [(''statusCode'', JNum st), (''headers'', json_headers),
                         (''body'', JStr (json_stringify env p))]"
    by (simp add: http_response2_def)
  with o P show "\<exists>st p. r = JObj [(''statusCode'', JNum st), (''headers'', json_headers),
                               (''body'', JStr (json_stringify env p))] \<and>
                    is_outcome p \<and> ?P st p"
    by blast
qed


theorem http_responses_are_json_witness:
  "handler1 sample_env (gateway_context ''T___kintone-get-apps'') (JObj [])
     = Inr (JObj [(''statusCode'', JNum 200), (''headers'', cors_headers),
                  (''body'', JStr (json_stringify sample_env
                     (JObj [(''success'', JBool True), (''data'', JObj [(''apps'', JArr [])])])))]) \<and>
   js_get (js_get (JObj [(''statusCode'', JNum 200), (''headers'', cors_headers),
                  (''body'', JStr (json_stringify sample_env
                     (JObj [(''success'', JBool True), (''data'', JObj [(''apps'', JArr [])])])))])
             ''headers'') ''Content-Type'' = JStr ''application/json'' \<and>
   run_tool sample_env (JStr ''get-apps'') (JObj [])
     = Inr (Some (JObj [(''success'', JBool True), (''data'', JObj [(''apps'', JArr [])])])) \<and>
   handler2 sample_env (gateway_context ''T___kintone-get-records'') (JObj [])
     = Inr (JObj [(''statusCode'', JNum 500), (''headers'', json_headers),
                  (''body'', JStr (json_stringify sample_env
                     (JObj [(''success'', JBool False),
                            (''error'', JStr (lib_message sample_env ZodError)),
                            (''timestamp'', JStr (clock sample_env))])))]) \<and>
   js_get (js_get (JObj [(''statusCode'', JNum 500), (''headers'', json_headers),
                  (''body'', JStr (json_stringify sample_env
                     (JObj [(''success'', JBool False),
                            (''error'', JStr (lib_message sample_env ZodError)),
                            (''timestamp'', JStr (clock sample_env))])))])
             ''headers'') ''Content-Type'' = JStr ''application/json'' \<and>
   json_stringify sample_env
     (JObj [(''success'', JBool True), (''data'', JObj [(''apps'', JArr [])])])
   \<noteq> json_stringify sample_env
     (JObj [(''success'', JBool False),
            (''error'', JStr (lib_message sample_env ZodError)),
            (''timestamp'', JStr (clock sample_env))])"
proof -
  let ?r = "JObj [(''statusCode'', JNum 200), (''headers'', cors_headers),
                  (''body'', JStr (json_stringify sample_env
                     (JObj [(''success'', JBool True), (''data'', JObj [(''apps'', JArr [])])])))]"
  let ?q = "JObj [(''statusCode'', JNum 500), (''headers'', json_headers),
                  (''body'', JStr (json_stringify sample_env
                     (JObj [(''success'', JBool False),
                            (''error'', JStr (lib_message sample_env ZodError)),
                            (''timestamp'', JStr (clock sample_env))])))]"
  have h1: "handler1 sample_env (gateway_context ''T___kintone-get-apps'') (JObj []) = Inr ?r"
    by code_simp
  have h2: "handler2 sample_env (gateway_context ''T___kintone-get-records'') (JObj []) = Inr ?q"
    by code_simp
  have s1: "js_get ?r ''statusCode'' \<noteq> JUndef" and s2: "js_get ?q ''statusCode'' \<noteq> JUndef"
    by simp_all
  from http_responses_are_json [OF s1, of sample_env "gateway_context ''T___kintone-get-apps''" "JObj []"] h1
  have c1: "js_get (js_get ?r ''headers'') ''Content-Type'' = JStr ''application/json''" by blast
  from http_responses_are_json [OF s2, of sample_env "gateway_context ''T___kintone-get-records''" "JObj []"] h2
  have c2: "js_get (js_get ?q ''headers'') ''Content-Type'' = JStr ''application/json''" by blast
  have run: "run_tool sample_env (JStr ''get-apps'') (JObj [])
     = Inr (Some (JObj [(''success'', JBool True), (''data'', JObj [(''apps'', JArr [])])]))"
    by code_simp
  have d: "json_stringify sample_env
     (JObj [(''success'', JBool True), (''data'', JObj [(''apps'', JArr [])])])
   \<noteq> json_stringify sample_env
     (JObj [(''success'', JBool False),
            (''error'', JStr (lib_message sample_env ZodError)),
            (''timestamp'', JStr (clock sample_env))])"
    by code_simp
  from h1 c1 run h2 c2 d show ?thesis by blast
qed

end
